theory Spec2Isabelle
  imports Complex_Main
begin

section \<open>Grip classifier: feature extraction, dataset loading, model selection, inference\<close>

text \<open>
  The development follows \<^verbatim>\<open>roboCleaner/ml_model/grip_classifier.py\<close> and
  \<^verbatim>\<open>roboCleaner/ml_model/train_grip_classifier.py\<close>.  In the main
  embedding Python floats are the reals: neither rounding nor overflow is part of it.
  That decides nothing about lengths, order, control flow and labels.  Where a property
  depends on the arithmetic, a second embedding of the extractor takes the floating-point
  operations as parameters (with IEEE doubles as one instance), and a statement about
  finiteness bounds the coordinates as the data model does.
\<close>

subsection \<open>Exceptions and results\<close>

datatype error = ValueError | IndexError | FloatingPointError

definition ebind :: "error + 'a \<Rightarrow> ('a \<Rightarrow> error + 'b) \<Rightarrow> error + 'b" where
  "ebind r f = (case r of Inl e \<Rightarrow> Inl e | Inr v \<Rightarrow> f v)"

subsection \<open>The NumPy and Python primitives the extractors call\<close>

type_synonym point = "real list"

text \<open>
  \<^verbatim>\<open>np.array(landmarks)\<close> on a list of coordinate lists: rows of one common length give a
  two-dimensional array; rows of different lengths raise \<^verbatim>\<open>ValueError\<close> (NumPy 1.24 and
  later; earlier versions build an array of Python lists, on which the first
  \<^verbatim>\<open>tip - wrist\<close> raises).
\<close>

definition np_array :: "point list \<Rightarrow> error + point list" where
  "np_array rows =
     (if list_all (\<lambda>r. length r = length (hd rows)) rows then Inr rows else Inl ValueError)"

text \<open>\<^verbatim>\<open>p[i]\<close> on a one-dimensional array.\<close>

definition item :: "point \<Rightarrow> nat \<Rightarrow> error + real" where
  "item p i = (if i < length p then Inr (p ! i) else Inl IndexError)"

text \<open>The comprehension \<^verbatim>\<open>[p[i] for p in ps]\<close>: the first failing index raises.\<close>

fun items :: "point list \<Rightarrow> nat \<Rightarrow> error + real list" where
  "items [] i = Inr []"
| "items (p # ps) i =
     ebind (item p i) (\<lambda>v. ebind (items ps i) (\<lambda>vs. Inr (v # vs)))"

text \<open>\<^verbatim>\<open>a - b\<close> on two rows of one array (equal lengths).\<close>

definition vsub :: "point \<Rightarrow> point \<Rightarrow> point" where
  "vsub a b = map2 (\<lambda>x y. x - y) a b"

definition linalg_norm :: "point \<Rightarrow> real" where
  "linalg_norm v = sqrt (sum_list (map (\<lambda>x. x * x) v))"

definition np_dot :: "point \<Rightarrow> point \<Rightarrow> real" where
  "np_dot a b = sum_list (map2 (\<lambda>x y. x * y) a b)"

definition np_mean :: "real list \<Rightarrow> real" where
  "np_mean xs = sum_list xs / real (length xs)"

text \<open>
  Python's \<^verbatim>\<open>max\<close> and \<^verbatim>\<open>min\<close> of a list.  Every call site passes a list of 5 or of
  21 elements, so the empty case of the source (\<^verbatim>\<open>ValueError\<close>) is never reached.
\<close>

definition py_max :: "real list \<Rightarrow> real" where
  "py_max xs = fold max (tl xs) (hd xs)"

definition py_min :: "real list \<Rightarrow> real" where
  "py_min xs = fold min (tl xs) (hd xs)"

text \<open>
  Division of two NumPy scalars.  A zero denominator gives \<^verbatim>\<open>inf\<close> or \<^verbatim>\<open>nan\<close> with a
  warning, which is no real number: the model makes it the error \<open>FloatingPointError\<close>.
  Overflow of the operands, the other way to a non-finite quotient, is not modelled here.
\<close>

definition np_divide :: "real \<Rightarrow> real \<Rightarrow> error + real" where
  "np_divide a b = (if b = 0 then Inl FloatingPointError else Inr (a / b))"

subsection \<open>The loops shared by both extractors\<close>

definition epsilon :: real where
  "epsilon = 1 / 1000000"

definition cos_angle :: "point \<Rightarrow> point \<Rightarrow> error + real" where
  "cos_angle vec1 vec2 =
     np_divide (np_dot vec1 vec2) (linalg_norm vec1 * linalg_norm vec2 + epsilon)"

text \<open>\<^verbatim>\<open>for i in range(len(mcps) - 1)\<close>: one cosine per adjacent pair.\<close>

fun angle_loop :: "point list \<Rightarrow> point \<Rightarrow> error + real list" where
  "angle_loop (m1 # m2 # ms) wrist =
     ebind (cos_angle (vsub m1 wrist) (vsub m2 wrist)) (\<lambda>c.
     ebind (angle_loop (m2 # ms) wrist) (\<lambda>cs. Inr (c # cs)))"
| "angle_loop ms wrist = Inr []"

text \<open>\<^verbatim>\<open>for tip in tips: features.extend([tip[0] - wrist[0], tip[1] - wrist[1]])\<close>.\<close>

fun rel_loop :: "point list \<Rightarrow> point \<Rightarrow> error + real list" where
  "rel_loop [] wrist = Inr []"
| "rel_loop (tip # tips) wrist =
     ebind (item tip 0) (\<lambda>tx. ebind (item wrist 0) (\<lambda>wx.
     ebind (item tip 1) (\<lambda>ty. ebind (item wrist 1) (\<lambda>wy.
     ebind (rel_loop tips wrist) (\<lambda>rest. Inr ([tx - wx, ty - wy] @ rest))))))"

subsection \<open>Inference: \<^verbatim>\<open>GripClassifier.extract_features\<close>\<close>

record mp_landmark =
  lm_x :: real
  lm_y :: real
  lm_z :: real

text \<open>
  The argument is either a list of points or a tracker object with a
  \<^verbatim>\<open>.landmark\<close> attribute.
\<close>

datatype landmarks_arg = PointList "point list" | MediaPipe "mp_landmark list"

definition as_points :: "landmarks_arg \<Rightarrow> point list" where
  "as_points a = (case a of PointList ps \<Rightarrow> ps
                  | MediaPipe ls \<Rightarrow> map (\<lambda>lm. [lm_x lm, lm_y lm]) ls)"

definition extract_features :: "landmarks_arg \<Rightarrow> error + real list option" where
  "extract_features arg =
     (let landmarks = as_points arg in
      if length landmarks \<noteq> 21 then Inr None
      else ebind (np_array landmarks) (\<lambda>points.
        let wrist = points ! 0;
            tips = [points ! 4, points ! 8, points ! 12, points ! 16, points ! 20];
            mcps = [points ! 5, points ! 9, points ! 13, points ! 17];
            dists = map (\<lambda>tip. linalg_norm (vsub tip wrist)) tips;
            avg_tip_dist = np_mean (map (\<lambda>tip. linalg_norm (vsub tip wrist)) tips)
        in ebind (items tips 0) (\<lambda>tip_x_coords.
           ebind (items tips 1) (\<lambda>tip_y_coords.
           let hand_width = py_max tip_x_coords - py_min tip_x_coords;
               hand_height = py_max tip_y_coords - py_min tip_y_coords;
               thumb_index_dist = linalg_norm (vsub (tips ! 0) (tips ! 1));
               index_middle_dist = linalg_norm (vsub (tips ! 1) (tips ! 2))
           in ebind (angle_loop mcps wrist) (\<lambda>cos_angles.
              ebind (items points 0) (\<lambda>all_x.
              ebind (items points 1) (\<lambda>all_y.
              let hand_area = (py_max all_x - py_min all_x) * (py_max all_y - py_min all_y)
              in ebind (rel_loop tips wrist) (\<lambda>rel.
                 Inr (Some (dists @ [avg_tip_dist] @ [hand_width, hand_height]
                            @ [thumb_index_dist] @ [index_middle_dist]
                            @ cos_angles @ [hand_area] @ rel))))))))))"

definition valid_landmarks :: "point list \<Rightarrow> bool" where
  "valid_landmarks lm \<longleftrightarrow> length lm = 21 \<and> list_all (\<lambda>p. length p = 2) lm"

subsection \<open>The trained model and inference: \<^verbatim>\<open>GripClassifier\<close>\<close>

text \<open>
  The fitted scikit-learn estimator is outside the repository.  It is modelled by what
  the code calls on it: \<^verbatim>\<open>predict\<close> on one feature row, and \<^verbatim>\<open>predict_proba\<close>,
  which an estimator may or may not have (\<^verbatim>\<open>hasattr(self.model, 'predict_proba')\<close>).
\<close>

record classifier =
  clf_predict :: "real list \<Rightarrow> int"
  clf_predict_proba :: "(real list \<Rightarrow> real list) option"

datatype json_value = JStr string | JInt int | JFloat real

type_synonym metadata = "(string \<times> json_value) list"

text \<open>What \<^verbatim>\<open>__init__\<close> finds at the model path and at the metadata path.\<close>

datatype 'a stored = Missing | Unreadable | Readable 'a

record grip_classifier =
  gc_model :: "classifier option"
  gc_metadata :: "metadata option"

definition init :: "classifier stored \<Rightarrow> metadata stored \<Rightarrow> grip_classifier" where
  "init model_file metadata_file =
     (case model_file of
        Missing \<Rightarrow> \<lparr>gc_model = None, gc_metadata = None\<rparr>
      | Unreadable \<Rightarrow> \<lparr>gc_model = None, gc_metadata = None\<rparr>
      | Readable m \<Rightarrow>
          (case metadata_file of
             Missing \<Rightarrow> \<lparr>gc_model = Some m, gc_metadata = None\<rparr>
           | Unreadable \<Rightarrow> \<lparr>gc_model = None, gc_metadata = None\<rparr>
           | Readable md \<Rightarrow> \<lparr>gc_model = Some m, gc_metadata = Some md\<rparr>))"

definition is_available :: "grip_classifier \<Rightarrow> bool" where
  "is_available self \<longleftrightarrow> gc_model self \<noteq> None"

record prediction =
  is_closed :: bool
  confidence :: real
  raw_value :: real
  probabilities :: "real list option"

definition predict :: "grip_classifier \<Rightarrow> landmarks_arg \<Rightarrow> error + prediction option" where
  "predict self landmarks =
     (case gc_model self of
        None \<Rightarrow> Inr None
      | Some m \<Rightarrow>
          ebind (extract_features landmarks) (\<lambda>features.
            case features of
              None \<Rightarrow> Inr None
            | Some fs \<Rightarrow>
                let label = clf_predict m fs in
                (case clf_predict_proba m of
                   Some proba \<Rightarrow>
                     let ps = proba fs in
                     if ps = [] then Inl ValueError
                     else Inr (Some \<lparr>is_closed = (label = 0), confidence = py_max ps,
                                     raw_value = real_of_int label, probabilities = Some ps\<rparr>)
                 | None \<Rightarrow>
                     Inr (Some \<lparr>is_closed = (label = 0), confidence = 1,
                                 raw_value = real_of_int label, probabilities = None\<rparr>))))"

subsection \<open>Training: \<^verbatim>\<open>load_landmark_data\<close>\<close>

text \<open>
  A parsed JSON source is a dictionary from sample identifiers to records, iterated in
  file order.  A record may lack the \<^verbatim>\<open>landmarks\<close> key; when present it is a list of
  hands, a hand a list of points, a point a list of numbers.
\<close>

type_synonym hand = "point list"

record sample_data =
  sd_landmarks :: "hand list option"

type_synonym json_source = "(string \<times> sample_data) list"

text \<open>What the functions print, as far as the properties below are concerned.\<close>

datatype message = Loading string | Loaded nat int

text \<open>
  \<^verbatim>\<open>for point in landmarks: if len(point) >= 2: feature_vector.extend([point[0], point[1]])\<close>
\<close>

fun flatten :: "hand \<Rightarrow> real list" where
  "flatten [] = []"
| "flatten (point # rest) =
     (if length point \<ge> 2 then [point ! 0, point ! 1] else []) @ flatten rest"

record loader_state =
  ls_features :: "real list list"
  ls_labels :: "int list"
  ls_count :: nat

definition load_step :: "int \<Rightarrow> loader_state \<Rightarrow> string \<times> sample_data \<Rightarrow> loader_state" where
  "load_step label st entry =
     (case sd_landmarks (snd entry) of
        None \<Rightarrow> st
      | Some hands \<Rightarrow>
          if length hands > 0 then
            (let first_hand = hands ! 0 in
             if length first_hand = 21 then
               (let feature_vector = flatten first_hand in
                if length feature_vector = 42 then
                  st\<lparr>ls_features := ls_features st @ [feature_vector],
                     ls_labels := ls_labels st @ [label],
                     ls_count := ls_count st + 1\<rparr>
                else st)
             else st)
          else st)"

definition load_landmark_data ::
    "string \<Rightarrow> json_source \<Rightarrow> int \<Rightarrow> (real list list \<times> int list) \<times> message list" where
  "load_landmark_data json_file_path data label =
     (let st = foldl (load_step label) \<lparr>ls_features = [], ls_labels = [], ls_count = 0\<rparr> data
      in ((ls_features st, ls_labels st), [Loading json_file_path, Loaded (ls_count st) label]))"

subsection \<open>Training: \<^verbatim>\<open>extract_advanced_features\<close>\<close>

definition extract_advanced_features :: "point list \<Rightarrow> error + real list option" where
  "extract_advanced_features landmarks =
     (if length landmarks \<noteq> 21 then Inr None
      else ebind (np_array landmarks) (\<lambda>points.
        let wrist = points ! 0;
            tips = [points ! 4, points ! 8, points ! 12, points ! 16, points ! 20];
            mcps = [points ! 5, points ! 9, points ! 13, points ! 17];
            dists = map (\<lambda>tip. linalg_norm (vsub tip wrist)) tips;
            avg_tip_dist = np_mean (map (\<lambda>tip. linalg_norm (vsub tip wrist)) tips)
        in ebind (items tips 0) (\<lambda>tip_x_coords.
           ebind (items tips 1) (\<lambda>tip_y_coords.
           let hand_width = py_max tip_x_coords - py_min tip_x_coords;
               hand_height = py_max tip_y_coords - py_min tip_y_coords;
               thumb_index_dist = linalg_norm (vsub (tips ! 0) (tips ! 1));
               index_middle_dist = linalg_norm (vsub (tips ! 1) (tips ! 2))
           in ebind (angle_loop mcps wrist) (\<lambda>cos_angles.
              ebind (items points 0) (\<lambda>all_x.
              ebind (items points 1) (\<lambda>all_y.
              let hand_area = (py_max all_x - py_min all_x) * (py_max all_y - py_min all_y)
              in ebind (rel_loop tips wrist) (\<lambda>rel.
                 Inr (Some (dists @ [avg_tip_dist] @ [hand_width, hand_height]
                            @ [thumb_index_dist] @ [index_middle_dist]
                            @ cos_angles @ [hand_area] @ rel))))))))))"

subsection \<open>Training: \<^verbatim>\<open>load_data_with_advanced_features\<close>\<close>

text \<open>
  \<^verbatim>\<open>[[flat[i], flat[i+1]] for i in range(0, len(flat), 2)]\<close>: an odd length reads
  past the end.
\<close>

fun reshape_pairs :: "real list \<Rightarrow> error + point list" where
  "reshape_pairs [] = Inr []"
| "reshape_pairs [x] = Inl IndexError"
| "reshape_pairs (x # y # rest) = ebind (reshape_pairs rest) (\<lambda>ps. Inr ([x, y] # ps))"

text \<open>
  One of the two processing loops.  \<^verbatim>\<open>if features:\<close> is Python truthiness: neither
  \<^verbatim>\<open>None\<close> nor the empty list passes.
\<close>

fun advanced_loop :: "real list list \<Rightarrow> int \<Rightarrow> error + (real list list \<times> int list)" where
  "advanced_loop [] lab = Inr ([], [])"
| "advanced_loop (landmarks_flat # rest) lab =
     ebind (reshape_pairs landmarks_flat) (\<lambda>lms.
     ebind (extract_advanced_features lms) (\<lambda>features.
     ebind (advanced_loop rest lab) (\<lambda>(fs, ls).
       case features of
         None \<Rightarrow> Inr (fs, ls)
       | Some f \<Rightarrow> if f = [] then Inr (fs, ls) else Inr (f # fs, lab # ls))))"

definition load_data_with_advanced_features ::
    "json_source \<Rightarrow> json_source \<Rightarrow> error + (real list list \<times> int list)" where
  "load_data_with_advanced_features fist_json palm_json =
     (let fist_features = fst (fst (load_landmark_data ''fist.json'' fist_json 0));
          palm_features = fst (fst (load_landmark_data ''palm.json'' palm_json 1))
      in ebind (advanced_loop fist_features 0) (\<lambda>(ffs, fls).
         ebind (advanced_loop palm_features 1) (\<lambda>(pfs, pls).
         ebind (np_array (ffs @ pfs)) (\<lambda>X. Inr (X, fls @ pls)))))"

subsection \<open>Training: \<^verbatim>\<open>train_model\<close> and \<^verbatim>\<open>main\<close>\<close>

text \<open>
  scikit-learn is outside the repository.  The pipeline is parameterised by the three
  library operations it calls: the stratified split (with its fixed seed and test size)
  and the fitting of each model family (with its fixed hyperparameters).  Each of them
  can raise: the split when a class has too few members or a partition would be empty,
  a fit when the training labels do not suit the family.
\<close>

record sklearn =
  train_test_split ::
    "real list list \<Rightarrow> int list \<Rightarrow>
       error + ((real list list \<times> real list list) \<times> (int list \<times> int list))"
  fit_random_forest :: "real list list \<Rightarrow> int list \<Rightarrow> error + classifier"
  fit_svc :: "real list list \<Rightarrow> int list \<Rightarrow> error + classifier"

text \<open>\<^verbatim>\<open>model.predict(X)\<close> on a matrix: one label per row.\<close>

definition predict_rows :: "classifier \<Rightarrow> real list list \<Rightarrow> int list" where
  "predict_rows m X = map (clf_predict m) X"

text \<open>
  \<^verbatim>\<open>sklearn.metrics.accuracy_score\<close>: the fraction of positions at which the two label
  vectors agree.  \<^verbatim>\<open>main\<close> returns before scoring an empty dataset, and in
  \<^verbatim>\<open>train_model\<close> an empty test partition makes the report that follows raise.
\<close>

definition accuracy_score :: "int list \<Rightarrow> int list \<Rightarrow> real" where
  "accuracy_score y_true y_pred =
     real (length (filter (\<lambda>(t, p). t = p) (zip y_true y_pred))) / real (length y_true)"

text \<open>
  \<^verbatim>\<open>sklearn.metrics.classification_report\<close> with \<^verbatim>\<open>target_names\<close> and no
  \<^verbatim>\<open>labels\<close>: it raises \<^verbatim>\<open>ValueError\<close> when the number of distinct labels in the two
  vectors is not the number of names.
\<close>

definition classification_report :: "int list \<Rightarrow> int list \<Rightarrow> string list \<Rightarrow> error + unit" where
  "classification_report y_true y_pred target_names =
     (if length (remdups (y_true @ y_pred)) \<noteq> length target_names then Inl ValueError
      else Inr ())"

text \<open>
  \<^verbatim>\<open>train_model\<close> returns the fitted model only; the accuracy on the held-out partition
  is printed.  The model keeps the printed value beside the returned one.
\<close>

record trained =
  tr_model :: classifier
  tr_printed_accuracy :: real

definition train_model ::
    "sklearn \<Rightarrow> real list list \<Rightarrow> int list \<Rightarrow> string \<Rightarrow> error + trained" where
  "train_model env X y model_type =
     ebind (train_test_split env X y) (\<lambda>((X_train, X_test), (y_train, y_test)).
       ebind (if model_type = ''random_forest'' then fit_random_forest env X_train y_train
              else if model_type = ''svm'' then fit_svc env X_train y_train
              else Inl ValueError) (\<lambda>m.
         let y_pred = predict_rows m X_test;
             accuracy = accuracy_score y_test y_pred
         in ebind (classification_report y_test y_pred [''Fist (Closed)'', ''Palm (Open)''])
              (\<lambda>u. Inr \<lparr>tr_model = m, tr_printed_accuracy = accuracy\<rparr>)))"

text \<open>Lines 276 to 290 of \<^verbatim>\<open>main\<close>: compare and pick.\<close>

definition select_model ::
    "classifier \<Rightarrow> classifier \<Rightarrow> real list list \<Rightarrow> int list \<Rightarrow> classifier \<times> string \<times> real \<times> real" where
  "select_model rf_model svm_model X y =
     (let rf_pred = predict_rows rf_model X;
          svm_pred = predict_rows svm_model X;
          rf_acc = accuracy_score y rf_pred;
          svm_acc = accuracy_score y svm_pred
      in if rf_acc \<ge> svm_acc then (rf_model, ''random_forest'', rf_acc, svm_acc)
         else (svm_model, ''svm'', rf_acc, svm_acc))"

text \<open>Lines 300 to 308 of \<^verbatim>\<open>main\<close>: the metadata dictionary, in insertion order.\<close>

definition make_metadata ::
    "string \<Rightarrow> real list list \<Rightarrow> int list \<Rightarrow> real \<Rightarrow> real \<Rightarrow> metadata" where
  "make_metadata model_name X y rf_acc svm_acc =
     [(''model_type'', JStr model_name),
      (''feature_count'', JInt (int (length (hd X)))),
      (''training_samples'', JInt (int (length X))),
      (''fist_samples'', JInt (int (length (filter (\<lambda>l. l = 0) y)))),
      (''palm_samples'', JInt (int (length (filter (\<lambda>l. l = 1) y)))),
      (''accuracy'', JFloat (if model_name = ''random_forest'' then rf_acc else svm_acc))]"

record artifact =
  art_model :: classifier
  art_metadata :: metadata

text \<open>
  \<^verbatim>\<open>main\<close>, with the two data files as arguments: \<open>None\<close> is a path that does not
  exist.  The result \<open>Inr None\<close> is one of the early returns after printing an error;
  \<open>Inr (Some a)\<close> is the pair of files written.
\<close>

definition main ::
    "sklearn \<Rightarrow> json_source option \<Rightarrow> json_source option \<Rightarrow> error + artifact option" where
  "main env fist_file palm_file =
     (case fist_file of
        None \<Rightarrow> Inr None
      | Some fist_json \<Rightarrow>
     (case palm_file of
        None \<Rightarrow> Inr None
      | Some palm_json \<Rightarrow>
          ebind (load_data_with_advanced_features fist_json palm_json) (\<lambda>(X, y).
            if length X = 0 then Inr None
            else
              ebind (train_model env X y ''random_forest'') (\<lambda>rf.
              ebind (train_model env X y ''svm'') (\<lambda>sv.
                case select_model (tr_model rf) (tr_model sv) X y of
                  (best_model, model_name, rf_acc, svm_acc) \<Rightarrow>
                    Inr (Some \<lparr>art_model = best_model,
                                art_metadata = make_metadata model_name X y rf_acc svm_acc\<rparr>))))))"

subsection \<open>The feature vector in closed form\<close>

text \<open>
  The 24 values both extractors compute on 21 points of two coordinates each, in the
  order in which the source appends them.
\<close>

definition feature_formula :: "point list \<Rightarrow> real list" where
  "feature_formula lm =
     (let wrist = lm ! 0;
          tips = [lm ! 4, lm ! 8, lm ! 12, lm ! 16, lm ! 20];
          mcps = [lm ! 5, lm ! 9, lm ! 13, lm ! 17]
      in map (\<lambda>tip. linalg_norm (vsub tip wrist)) tips
         @ [np_mean (map (\<lambda>tip. linalg_norm (vsub tip wrist)) tips),
            py_max (map (\<lambda>p. p ! 0) tips) - py_min (map (\<lambda>p. p ! 0) tips),
            py_max (map (\<lambda>p. p ! 1) tips) - py_min (map (\<lambda>p. p ! 1) tips),
            linalg_norm (vsub (lm ! 4) (lm ! 8)),
            linalg_norm (vsub (lm ! 8) (lm ! 12))]
         @ map (\<lambda>(a, b). np_dot (vsub a wrist) (vsub b wrist)
                   / (linalg_norm (vsub a wrist) * linalg_norm (vsub b wrist) + epsilon))
               (zip mcps (tl mcps))
         @ [(py_max (map (\<lambda>p. p ! 0) lm) - py_min (map (\<lambda>p. p ! 0) lm))
             * (py_max (map (\<lambda>p. p ! 1) lm) - py_min (map (\<lambda>p. p ! 1) lm))]
         @ concat (map (\<lambda>t. [t ! 0 - wrist ! 0, t ! 1 - wrist ! 1]) tips))"

text \<open>A hand with every landmark at the origin.\<close>

definition zero_hand :: "point list" where
  "zero_hand = replicate 21 [0, 0]"

text \<open>Moving every landmark of a hand by the offset \<open>(dx, dy)\<close>.\<close>

definition translate :: "real \<Rightarrow> real \<Rightarrow> point list \<Rightarrow> point list" where
  "translate dx dy lm = map (\<lambda>p. [p ! 0 + dx, p ! 1 + dy]) lm"

subsection \<open>Concrete inputs\<close>

text \<open>
  A fitted model that looks at one feature only, entry 14 (the thumb tip's horizontal
  offset from the wrist), and reports fixed class probabilities.
\<close>

definition thumb_rule :: classifier where
  "thumb_rule =
     \<lparr>clf_predict = (\<lambda>row. if row ! 14 < 1 then 0 else 1),
      clf_predict_proba = Some (\<lambda>row. if row ! 14 < 1 then [9 / 10, 1 / 10] else [1 / 5, 4 / 5])\<rparr>"

text \<open>21 points of one coordinate each, and 21 points of which the last has one.\<close>

definition short_hand :: "point list" where
  "short_hand = replicate 21 [0]"

definition ragged_hand :: "point list" where
  "ragged_hand = replicate 20 [0, 0] @ [[0]]"

text \<open>21 points of three coordinates each.\<close>

definition three_coordinate_hand :: "point list" where
  "three_coordinate_hand = replicate 21 [1, 2, 3]"

text \<open>
  A hand with the wrist and every other landmark at the origin and the thumb tip at
  \<open>(k, 0)\<close>.
\<close>

definition hand_at :: "real \<Rightarrow> point list" where
  "hand_at k = (replicate 21 [0, 0])[4 := [k, 0]]"

text \<open>A fitted model that answers 1 (palm) on every row and has no probabilities.\<close>

definition always_palm :: classifier where
  "always_palm = \<lparr>clf_predict = (\<lambda>row. 1), clf_predict_proba = None\<rparr>"

text \<open>
  Stand-ins for scikit-learn.  The split keeps rows 4 and 9 of ten for the test partition
  (one of each class, 20 per cent).  In \<open>demo_env\<close> fitting either family gives
  \<open>thumb_rule\<close>; in \<open>svm_better_env\<close> the forest is \<open>always_palm\<close> and the margin
  classifier \<open>thumb_rule\<close>; in \<open>forest_better_env\<close> it is the other way round.
\<close>

definition demo_split ::
    "real list list \<Rightarrow> int list \<Rightarrow>
       error + ((real list list \<times> real list list) \<times> (int list \<times> int list))" where
  "demo_split X y =
     Inr ((take 4 X @ take 4 (drop 5 X), drop 4 (take 5 X) @ drop 9 X),
          (take 4 y @ take 4 (drop 5 y), drop 4 (take 5 y) @ drop 9 y))"

definition demo_env :: sklearn where
  "demo_env =
     \<lparr>train_test_split = demo_split,
      fit_random_forest = (\<lambda>X y. Inr thumb_rule),
      fit_svc = (\<lambda>X y. Inr thumb_rule)\<rparr>"

definition svm_better_env :: sklearn where
  "svm_better_env =
     \<lparr>train_test_split = demo_split,
      fit_random_forest = (\<lambda>X y. Inr always_palm),
      fit_svc = (\<lambda>X y. Inr thumb_rule)\<rparr>"

definition forest_better_env :: sklearn where
  "forest_better_env =
     \<lparr>train_test_split = demo_split,
      fit_random_forest = (\<lambda>X y. Inr thumb_rule),
      fit_svc = (\<lambda>X y. Inr always_palm)\<rparr>"

text \<open>
  Two data sources of five records each.  The last fist sample has the thumb stretched
  out like the palm samples.
\<close>

definition fist_demo :: json_source where
  "fist_demo =
     [(''f1'', \<lparr>sd_landmarks = Some [hand_at 0]\<rparr>), (''f2'', \<lparr>sd_landmarks = Some [hand_at 0]\<rparr>),
      (''f3'', \<lparr>sd_landmarks = Some [hand_at 0]\<rparr>), (''f4'', \<lparr>sd_landmarks = Some [hand_at 0]\<rparr>),
      (''f5'', \<lparr>sd_landmarks = Some [hand_at 2]\<rparr>)]"

definition palm_demo :: json_source where
  "palm_demo =
     [(''p1'', \<lparr>sd_landmarks = Some [hand_at 2]\<rparr>), (''p2'', \<lparr>sd_landmarks = Some [hand_at 2]\<rparr>),
      (''p3'', \<lparr>sd_landmarks = Some [hand_at 2]\<rparr>), (''p4'', \<lparr>sd_landmarks = Some [hand_at 2]\<rparr>),
      (''p5'', \<lparr>sd_landmarks = Some [hand_at 2]\<rparr>)]"

definition demo_X :: "real list list" where
  "demo_X = map feature_formula
     [hand_at 0, hand_at 0, hand_at 0, hand_at 0, hand_at 2,
      hand_at 2, hand_at 2, hand_at 2, hand_at 2, hand_at 2]"

definition demo_y :: "int list" where
  "demo_y = [0, 0, 0, 0, 0, 1, 1, 1, 1, 1]"

definition demo_artifact :: artifact where
  "demo_artifact =
     \<lparr>art_model = thumb_rule,
      art_metadata =
        [(''model_type'', JStr ''random_forest''), (''feature_count'', JInt 24),
         (''training_samples'', JInt 10), (''fist_samples'', JInt 5),
         (''palm_samples'', JInt 5), (''accuracy'', JFloat (9 / 10))]\<rparr>"

definition svm_artifact :: artifact where
  "svm_artifact =
     \<lparr>art_model = thumb_rule,
      art_metadata =
        [(''model_type'', JStr ''svm''), (''feature_count'', JInt 24),
         (''training_samples'', JInt 10), (''fist_samples'', JInt 5),
         (''palm_samples'', JInt 5), (''accuracy'', JFloat (9 / 10))]\<rparr>"

subsection \<open>Reshaping without the exception\<close>

text \<open>The pairs \<open>reshape_pairs\<close> returns on a list of even length.\<close>

fun pairs :: "real list \<Rightarrow> point list" where
  "pairs (x # y # rest) = [x, y] # pairs rest"
| "pairs rest = []"

subsection \<open>The loader's loop invariant\<close>

definition loader_inv :: "int \<Rightarrow> loader_state \<Rightarrow> bool" where
  "loader_inv label st \<longleftrightarrow>
     ls_count st = length (ls_features st) \<and> length (ls_labels st) = length (ls_features st)
     \<and> (\<forall>fv\<in>set (ls_features st). length fv = 42) \<and> (\<forall>l\<in>set (ls_labels st). l = label)"

subsection \<open>Landmarks in the normalized coordinate space\<close>

text \<open>
  The data model puts every coordinate between 0 and 1.  \<open>open_hand\<close> is a hand as a
  tracker reports it, open, fingers up, on a grid of 64ths, so that its coordinates are
  doubles.
\<close>

definition normalized_landmarks :: "point list \<Rightarrow> bool" where
  "normalized_landmarks lm \<longleftrightarrow>
     valid_landmarks lm \<and> list_all (\<lambda>p. list_all (\<lambda>c. 0 \<le> c \<and> c \<le> 1) p) lm"

text \<open>
  The sizes of everything that enters one cosine: the components of the two vectors,
  their dot product, their norms and the denominator.
\<close>

definition cosine_operands_bounded :: "point \<Rightarrow> point \<Rightarrow> point \<Rightarrow> bool" where
  "cosine_operands_bounded wrist a b \<longleftrightarrow>
     (let vec1 = vsub a wrist; vec2 = vsub b wrist
      in list_all (\<lambda>c. \<bar>c\<bar> \<le> 1) vec1 \<and> list_all (\<lambda>c. \<bar>c\<bar> \<le> 1) vec2
         \<and> \<bar>np_dot vec1 vec2\<bar> \<le> 2
         \<and> linalg_norm vec1 \<le> 2 \<and> linalg_norm vec2 \<le> 2
         \<and> epsilon \<le> linalg_norm vec1 * linalg_norm vec2 + epsilon
         \<and> linalg_norm vec1 * linalg_norm vec2 + epsilon \<le> 2 + epsilon)"

definition open_hand_grid :: "(int \<times> int) list" where
  "open_hand_grid =
     [(32, 58),
      (27, 54), (23, 50), (20, 45), (17, 40),
      (28, 40), (26, 32), (26, 27), (25, 22),
      (32, 38), (32, 30), (32, 24), (32, 19),
      (36, 40), (37, 32), (38, 27), (38, 22),
      (40, 42), (42, 36), (43, 33), (44, 29)]"

definition open_hand :: "point list" where
  "open_hand = map (\<lambda>(a, b). [of_int a / 64, of_int b / 64]) open_hand_grid"

subsection \<open>The extractor over a floating-point arithmetic\<close>

text \<open>
  The arithmetic the extractor uses, as parameters: the four operations on scalars,
  \<^verbatim>\<open>np.dot\<close>, \<^verbatim>\<open>np.linalg.norm\<close> and \<^verbatim>\<open>np.mean\<close> as the library computes them, and
  the value of the literal \<^verbatim>\<open>1e-6\<close>.  Indexing, \<^verbatim>\<open>max\<close> and \<^verbatim>\<open>min\<close> select and do
  not round.
\<close>

record float_ops =
  f_add :: "real \<Rightarrow> real \<Rightarrow> real"
  f_sub :: "real \<Rightarrow> real \<Rightarrow> real"
  f_mul :: "real \<Rightarrow> real \<Rightarrow> real"
  f_div :: "real \<Rightarrow> real \<Rightarrow> real"
  f_dot :: "point \<Rightarrow> point \<Rightarrow> real"
  f_norm :: "point \<Rightarrow> real"
  f_mean :: "real list \<Rightarrow> real"
  f_epsilon :: real

text \<open>
  \<open>extract_features\<close> once more, line by line, with every arithmetic operation taken
  from the parameter.
\<close>

definition vsub_fp :: "float_ops \<Rightarrow> point \<Rightarrow> point \<Rightarrow> point" where
  "vsub_fp ops a b = map2 (f_sub ops) a b"

definition fp_divide :: "float_ops \<Rightarrow> real \<Rightarrow> real \<Rightarrow> error + real" where
  "fp_divide ops a b = (if b = 0 then Inl FloatingPointError else Inr (f_div ops a b))"

definition cos_angle_fp :: "float_ops \<Rightarrow> point \<Rightarrow> point \<Rightarrow> error + real" where
  "cos_angle_fp ops vec1 vec2 =
     fp_divide ops (f_dot ops vec1 vec2)
       (f_add ops (f_mul ops (f_norm ops vec1) (f_norm ops vec2)) (f_epsilon ops))"

fun angle_loop_fp :: "float_ops \<Rightarrow> point list \<Rightarrow> point \<Rightarrow> error + real list" where
  "angle_loop_fp ops (m1 # m2 # ms) wrist =
     ebind (cos_angle_fp ops (vsub_fp ops m1 wrist) (vsub_fp ops m2 wrist)) (\<lambda>c.
     ebind (angle_loop_fp ops (m2 # ms) wrist) (\<lambda>cs. Inr (c # cs)))"
| "angle_loop_fp ops ms wrist = Inr []"

fun rel_loop_fp :: "float_ops \<Rightarrow> point list \<Rightarrow> point \<Rightarrow> error + real list" where
  "rel_loop_fp ops [] wrist = Inr []"
| "rel_loop_fp ops (tip # tips) wrist =
     ebind (item tip 0) (\<lambda>tx. ebind (item wrist 0) (\<lambda>wx.
     ebind (item tip 1) (\<lambda>ty. ebind (item wrist 1) (\<lambda>wy.
     ebind (rel_loop_fp ops tips wrist) (\<lambda>rest.
       Inr ([f_sub ops tx wx, f_sub ops ty wy] @ rest))))))"

definition extract_features_fp :: "float_ops \<Rightarrow> landmarks_arg \<Rightarrow> error + real list option" where
  "extract_features_fp ops arg =
     (let landmarks = as_points arg in
      if length landmarks \<noteq> 21 then Inr None
      else ebind (np_array landmarks) (\<lambda>points.
        let wrist = points ! 0;
            tips = [points ! 4, points ! 8, points ! 12, points ! 16, points ! 20];
            mcps = [points ! 5, points ! 9, points ! 13, points ! 17];
            dists = map (\<lambda>tip. f_norm ops (vsub_fp ops tip wrist)) tips;
            avg_tip_dist = f_mean ops (map (\<lambda>tip. f_norm ops (vsub_fp ops tip wrist)) tips)
        in ebind (items tips 0) (\<lambda>tip_x_coords.
           ebind (items tips 1) (\<lambda>tip_y_coords.
           let hand_width = f_sub ops (py_max tip_x_coords) (py_min tip_x_coords);
               hand_height = f_sub ops (py_max tip_y_coords) (py_min tip_y_coords);
               thumb_index_dist = f_norm ops (vsub_fp ops (tips ! 0) (tips ! 1));
               index_middle_dist = f_norm ops (vsub_fp ops (tips ! 1) (tips ! 2))
           in ebind (angle_loop_fp ops mcps wrist) (\<lambda>cos_angles.
              ebind (items points 0) (\<lambda>all_x.
              ebind (items points 1) (\<lambda>all_y.
              let hand_area = f_mul ops (f_sub ops (py_max all_x) (py_min all_x))
                                        (f_sub ops (py_max all_y) (py_min all_y))
              in ebind (rel_loop_fp ops tips wrist) (\<lambda>rel.
                 Inr (Some (dists @ [avg_tip_dist] @ [hand_width, hand_height]
                            @ [thumb_index_dist] @ [index_middle_dist]
                            @ cos_angles @ [hand_area] @ rel))))))))))"

text \<open>Exact arithmetic, the instance the main embedding uses.\<close>

definition exact_ops :: float_ops where
  "exact_ops =
     \<lparr>f_add = (\<lambda>x y. x + y), f_sub = (\<lambda>x y. x - y), f_mul = (\<lambda>x y. x * y),
      f_div = (\<lambda>x y. x / y), f_dot = np_dot, f_norm = linalg_norm, f_mean = np_mean,
      f_epsilon = epsilon\<rparr>"

text \<open>
  The entries before and after the three cosines, on 21 points of two coordinates each.
\<close>

definition head_features_fp :: "float_ops \<Rightarrow> point list \<Rightarrow> real list" where
  "head_features_fp ops lm =
     (let wrist = lm ! 0;
          tips = [lm ! 4, lm ! 8, lm ! 12, lm ! 16, lm ! 20]
      in map (\<lambda>tip. f_norm ops (vsub_fp ops tip wrist)) tips
         @ [f_mean ops (map (\<lambda>tip. f_norm ops (vsub_fp ops tip wrist)) tips),
            f_sub ops (py_max (map (\<lambda>p. p ! 0) tips)) (py_min (map (\<lambda>p. p ! 0) tips)),
            f_sub ops (py_max (map (\<lambda>p. p ! 1) tips)) (py_min (map (\<lambda>p. p ! 1) tips)),
            f_norm ops (vsub_fp ops (lm ! 4) (lm ! 8)),
            f_norm ops (vsub_fp ops (lm ! 8) (lm ! 12))])"

definition tail_features_fp :: "float_ops \<Rightarrow> point list \<Rightarrow> real list" where
  "tail_features_fp ops lm =
     (let wrist = lm ! 0;
          tips = [lm ! 4, lm ! 8, lm ! 12, lm ! 16, lm ! 20]
      in [f_mul ops (f_sub ops (py_max (map (\<lambda>p. p ! 0) lm)) (py_min (map (\<lambda>p. p ! 0) lm)))
                    (f_sub ops (py_max (map (\<lambda>p. p ! 1) lm)) (py_min (map (\<lambda>p. p ! 1) lm)))]
         @ concat (map (\<lambda>t. [f_sub ops (t ! 0) (wrist ! 0), f_sub ops (t ! 1) (wrist ! 1)]) tips))"

subsection \<open>IEEE doubles\<close>

text \<open>
  Rounding to the nearest number with a significand of 53 bits, ties to the even
  significand.  The exponent is not bounded: overflow and subnormal numbers are outside
  this function.
\<close>

definition round_half_even :: "real \<Rightarrow> int" where
  "round_half_even x =
     (let f = \<lfloor>x\<rfloor>; r = x - of_int f
      in if r < 1 / 2 then f else if 1 / 2 < r then f + 1 else if even f then f else f + 1)"

definition round_double :: "real \<Rightarrow> real" where
  "round_double x =
     (if x = 0 then 0
      else let e = \<lfloor>log 2 \<bar>x\<bar>\<rfloor> - 52
           in of_int (round_half_even (x / 2 powr of_int e)) * 2 powr of_int e)"

text \<open>
  Double arithmetic: every operation returns the rounded exact result, the sums inside
  \<^verbatim>\<open>np.dot\<close> and \<^verbatim>\<open>np.mean\<close> are rounded term by term in index order.
\<close>

definition double_dot :: "point \<Rightarrow> point \<Rightarrow> real" where
  "double_dot a b = foldl (\<lambda>s (x, y). round_double (s + round_double (x * y))) 0 (zip a b)"

definition double_ops :: float_ops where
  "double_ops =
     \<lparr>f_add = (\<lambda>x y. round_double (x + y)), f_sub = (\<lambda>x y. round_double (x - y)),
      f_mul = (\<lambda>x y. round_double (x * y)), f_div = (\<lambda>x y. round_double (x / y)),
      f_dot = double_dot,
      f_norm = (\<lambda>v. round_double (sqrt (double_dot v v))),
      f_mean = (\<lambda>xs. round_double (foldl (\<lambda>s x. round_double (s + x)) 0 xs / real (length xs))),
      f_epsilon = round_double (1 / 1000000)\<rparr>"

text \<open>A translation computed by the program's own addition.\<close>

definition translate_fp :: "float_ops \<Rightarrow> real \<Rightarrow> real \<Rightarrow> point list \<Rightarrow> point list" where
  "translate_fp ops dx dy lm = map (\<lambda>p. [f_add ops (p ! 0) dx, f_add ops (p ! 1) dy]) lm"

text \<open>
  Every landmark at the origin but the wrist at \<open>(0.2, 0)\<close> and the thumb tip at
  \<open>(0.1, 0)\<close>, as the doubles those literals denote.
\<close>

definition decimal_hand :: "point list" where
  "decimal_hand = (replicate 21 [0, 0])[0 := [round_double (1 / 5), 0], 4 := [round_double (1 / 10), 0]]"

text \<open>Entry \<open>i\<close> of a returned vector.\<close>

definition feature :: "error + real list option \<Rightarrow> nat \<Rightarrow> real option" where
  "feature r i = (case r of Inr (Some fs) \<Rightarrow> if i < length fs then Some (fs ! i) else None
                  | _ \<Rightarrow> None)"

section \<open>Properties of the primitives\<close>

lemma ebind_Inr [simp]: "ebind (Inr v) f = f v"
  by (simp add: ebind_def)

lemma ebind_Inl [simp]: "ebind (Inl e) f = Inl e"
  by (simp add: ebind_def)

lemma np_array_uniform:
  "list_all (\<lambda>p. length p = k) rows \<Longrightarrow> np_array rows = Inr rows"
  by (cases rows) (auto simp: np_array_def list_all_iff)

lemma items_in_range:
  "list_all (\<lambda>p. i < length p) ps \<Longrightarrow> items ps i = Inr (map (\<lambda>p. p ! i) ps)"
  by (induction ps) (simp_all add: item_def)

lemma linalg_norm_nonneg: "0 \<le> linalg_norm v"
proof -
  have "0 \<le> sum_list (map (\<lambda>x. x * x) v)"
    by (rule sum_list_nonneg) auto
  then show ?thesis by (simp add: linalg_norm_def)
qed

lemma denominator_pos: "0 < linalg_norm a * linalg_norm b + epsilon"
proof -
  have "0 \<le> linalg_norm a * linalg_norm b"
    by (simp add: linalg_norm_nonneg)
  moreover have "0 < epsilon" by (simp add: epsilon_def)
  ultimately show ?thesis by linarith
qed

lemma cos_angle_finite:
  "cos_angle a b = Inr (np_dot a b / (linalg_norm a * linalg_norm b + epsilon))"
  using denominator_pos [of a b] by (simp add: cos_angle_def np_divide_def)

lemma angle_loop_closed:
  "angle_loop ms w =
     Inr (map (\<lambda>(a, b). np_dot (vsub a w) (vsub b w)
                 / (linalg_norm (vsub a w) * linalg_norm (vsub b w) + epsilon))
              (zip ms (tl ms)))"
  by (induction ms w rule: angle_loop.induct) (simp_all add: cos_angle_finite)

lemma rel_loop_closed:
  "1 < length w \<Longrightarrow> list_all (\<lambda>p. 1 < length p) ts \<Longrightarrow>
   rel_loop ts w = Inr (concat (map (\<lambda>t. [t ! 0 - w ! 0, t ! 1 - w ! 1]) ts))"
  by (induction ts) (auto simp: item_def)

lemma valid_nth: "valid_landmarks lm \<Longrightarrow> i < 21 \<Longrightarrow> length (lm ! i) = 2"
  by (simp add: valid_landmarks_def list_all_length)

lemma length_feature_formula: "length (feature_formula lm) = 24"
  by (simp add: feature_formula_def Let_def)

lemma extract_features_closed:
  assumes "valid_landmarks lm"
  shows "extract_features (PointList lm) = Inr (Some (feature_formula lm))"
proof -
  have len: "length lm = 21" and all2: "list_all (\<lambda>p. length p = 2) lm"
    using assms by (simp_all add: valid_landmarks_def)
  have arr: "np_array lm = Inr lm" using all2 by (rule np_array_uniform)
  have i0: "list_all (\<lambda>p. 0 < length p) lm" and i1: "list_all (\<lambda>p. 1 < length p) lm"
    using all2 by (auto simp: list_all_iff)
  have w: "1 < length (lm ! 0)" using valid_nth [OF assms, of 0] by simp
  let ?tips = "[lm ! 4, lm ! 8, lm ! 12, lm ! 16, lm ! 20]"
  have tl: "length (lm ! 4) = 2" "length (lm ! 8) = 2" "length (lm ! 12) = 2"
    "length (lm ! 16) = 2" "length (lm ! 20) = 2"
    by (simp_all add: valid_nth [OF assms])
  have t0: "list_all (\<lambda>p. 0 < length p) ?tips" and t1: "list_all (\<lambda>p. 1 < length p) ?tips"
    by (simp_all add: tl del: length_greater_0_conv)
  have x: "items ?tips 0 = Inr (map (\<lambda>p. p ! 0) ?tips)"
    using t0 by (rule items_in_range)
  have y: "items ?tips 1 = Inr (map (\<lambda>p. p ! 1) ?tips)"
    using t1 by (rule items_in_range)
  have r: "rel_loop ?tips (lm ! 0)
             = Inr (concat (map (\<lambda>t. [t ! 0 - lm ! 0 ! 0, t ! 1 - lm ! 0 ! 1]) ?tips))"
    using w t1 by (rule rel_loop_closed)
  note facts = x y r items_in_range [OF i0] items_in_range [OF i1]
  show ?thesis
    by (simp add: extract_features_def as_points_def len arr facts [unfolded One_nat_def]
          angle_loop_closed feature_formula_def Let_def
        del: items.simps rel_loop.simps angle_loop.simps)
qed

lemma extract_features_wrong_length:
  "length (as_points arg) \<noteq> 21 \<Longrightarrow> extract_features arg = Inr None"
  by (simp add: extract_features_def Let_def)

lemma valid_zero_hand: "valid_landmarks zero_hand"
  by (simp add: valid_landmarks_def zero_hand_def list_all_iff)

lemma py_max_replicate: "0 < n \<Longrightarrow> py_max (replicate n x) = x"
proof -
  have "fold max (replicate k x) x = x" for k
    by (induction k) simp_all
  then show "0 < n \<Longrightarrow> py_max (replicate n x) = x"
    by (simp add: py_max_def)
qed

lemma py_min_replicate: "0 < n \<Longrightarrow> py_min (replicate n x) = x"
proof -
  have "fold min (replicate k x) x = x" for k
    by (induction k) simp_all
  then show "0 < n \<Longrightarrow> py_min (replicate n x) = x"
    by (simp add: py_min_def)
qed

lemma feature_formula_zero_hand: "feature_formula zero_hand = replicate 24 0"
proof -
  have n: "zero_hand ! i = [0, 0]" if "i < 21" for i
    using that by (simp add: zero_hand_def)
  have m: "map f zero_hand = replicate 21 (f [0, 0])" for f :: "point \<Rightarrow> real"
    by (simp add: zero_hand_def)
  have a: "py_max (map (\<lambda>p. p ! i) zero_hand) = 0" "py_min (map (\<lambda>p. p ! i) zero_hand) = 0"
    if "i < 2" for i
    using that by (auto simp: m py_max_replicate py_min_replicate less_Suc_eq numeral_2_eq_2)
  have area: "(py_max (map (\<lambda>p. p ! 0) zero_hand) - py_min (map (\<lambda>p. p ! 0) zero_hand))
      * (py_max (map (\<lambda>p. p ! 1) zero_hand) - py_min (map (\<lambda>p. p ! 1) zero_hand)) = 0"
    by (simp add: a)
  have r: "replicate 24 (0::real) = [0,0,0,0,0,0,0,0,0,0,0,0,0,0,0,0,0,0,0,0,0,0,0,0]"
    by (simp add: numeral_eq_Suc)
  show ?thesis
    unfolding feature_formula_def Let_def area
    by (simp add: n r vsub_def linalg_norm_def np_dot_def np_mean_def py_max_def py_min_def)
qed

section \<open>The contract of the inference-time extractor\<close>

text \<open>
  Claim C1, as the code has it.  On 21 points of two coordinates each,
  \<open>extract_features\<close> returns a vector of 24 scalars (5 tip distances, their mean,
  2 spreads, 2 tip-to-tip distances, 3 cosines, 1 area, 10 relative coordinates); on an
  argument whose length is not 21 it returns \<open>None\<close>.
\<close>

theorem extract_features_contract:
  "(valid_landmarks lm \<longrightarrow>
      (\<exists>fs. extract_features (PointList lm) = Inr (Some fs) \<and> length fs = 24))
   \<and> (length (as_points arg) \<noteq> 21 \<longrightarrow> extract_features arg = Inr None)"
  by (simp add: extract_features_closed length_feature_formula extract_features_wrong_length)

theorem extract_features_contract_witness:
  "valid_landmarks zero_hand
   \<and> (\<exists>fs. extract_features (PointList zero_hand) = Inr (Some fs) \<and> length fs = 24)
   \<and> length (as_points (PointList [[0, 0]])) \<noteq> 21
   \<and> extract_features (PointList [[0, 0]]) = Inr None"
  using extract_features_contract [of zero_hand "PointList [[0, 0]]"]
  by (simp add: valid_zero_hand as_points_def)

text \<open>
  The vector does not have 21 entries: at the hand with every landmark at the origin it
  is 24 zeros.
\<close>

theorem extract_features_not_21:
  "extract_features (PointList zero_hand) = Inr (Some (replicate 24 0))
   \<and> length (replicate 24 (0::real)) \<noteq> 21"
  by (simp add: extract_features_closed [OF valid_zero_hand] feature_formula_zero_hand)

section \<open>Training and inference extract the same features\<close>

lemma extract_advanced_features_closed:
  assumes "valid_landmarks lm"
  shows "extract_advanced_features lm = Inr (Some (feature_formula lm))"
proof -
  have len: "length lm = 21" and all2: "list_all (\<lambda>p. length p = 2) lm"
    using assms by (simp_all add: valid_landmarks_def)
  have arr: "np_array lm = Inr lm" using all2 by (rule np_array_uniform)
  have i0: "list_all (\<lambda>p. 0 < length p) lm" and i1: "list_all (\<lambda>p. 1 < length p) lm"
    using all2 by (auto simp: list_all_iff)
  have w: "1 < length (lm ! 0)" using valid_nth [OF assms, of 0] by simp
  let ?tips = "[lm ! 4, lm ! 8, lm ! 12, lm ! 16, lm ! 20]"
  have tl: "length (lm ! 4) = 2" "length (lm ! 8) = 2" "length (lm ! 12) = 2"
    "length (lm ! 16) = 2" "length (lm ! 20) = 2"
    by (simp_all add: valid_nth [OF assms])
  have t0: "list_all (\<lambda>p. 0 < length p) ?tips" and t1: "list_all (\<lambda>p. 1 < length p) ?tips"
    by (simp_all add: tl del: length_greater_0_conv)
  have x: "items ?tips 0 = Inr (map (\<lambda>p. p ! 0) ?tips)"
    using t0 by (rule items_in_range)
  have y: "items ?tips 1 = Inr (map (\<lambda>p. p ! 1) ?tips)"
    using t1 by (rule items_in_range)
  have r: "rel_loop ?tips (lm ! 0)
             = Inr (concat (map (\<lambda>t. [t ! 0 - lm ! 0 ! 0, t ! 1 - lm ! 0 ! 1]) ?tips))"
    using w t1 by (rule rel_loop_closed)
  note facts = x y r items_in_range [OF i0] items_in_range [OF i1]
  show ?thesis
    by (simp add: extract_advanced_features_def len arr facts [unfolded One_nat_def]
          angle_loop_closed feature_formula_def Let_def
        del: items.simps rel_loop.simps angle_loop.simps)
qed

text \<open>
  Claim C9.  On every landmark set of 21 two-coordinate points the training-time
  extractor \<open>extract_advanced_features\<close> and the inference-time extractor
  \<open>extract_features\<close> both return a vector, and it is the same list of 24 values:
  the same values in the same order.
\<close>

theorem extractors_agree:
  "valid_landmarks lm \<Longrightarrow>
   \<exists>fs. extract_advanced_features lm = Inr (Some fs)
      \<and> extract_features (PointList lm) = Inr (Some fs) \<and> length fs = 24"
  by (simp add: extract_advanced_features_closed extract_features_closed length_feature_formula)

theorem extractors_agree_witness:
  "valid_landmarks zero_hand \<and>
   (\<exists>fs. extract_advanced_features zero_hand = Inr (Some fs)
      \<and> extract_features (PointList zero_hand) = Inr (Some fs) \<and> length fs = 24)"
  using extractors_agree [of zero_hand] by (simp add: valid_zero_hand)

section \<open>Translation invariance\<close>

lemma pair_point: "length p = 2 \<Longrightarrow> p = [p ! 0, p ! 1]"
  by (cases p; cases "tl p") auto

lemma fold_max_shift: "fold max (map (\<lambda>x. x + d) xs) (a + d) = fold max xs a + (d::real)"
  by (induction xs arbitrary: a) (simp_all add: max_add_distrib_left [symmetric])

lemma fold_min_shift: "fold min (map (\<lambda>x. x + d) xs) (a + d) = fold min xs a + (d::real)"
  by (induction xs arbitrary: a) (simp_all add: min_add_distrib_left [symmetric])

lemma py_max_shift: "xs \<noteq> [] \<Longrightarrow> py_max (map (\<lambda>x. x + d) xs) = py_max xs + d"
  by (cases xs) (simp_all add: py_max_def fold_max_shift)

lemma py_min_shift: "xs \<noteq> [] \<Longrightarrow> py_min (map (\<lambda>x. x + d) xs) = py_min xs + d"
  by (cases xs) (simp_all add: py_min_def fold_min_shift)

lemma valid_translate: "valid_landmarks lm \<Longrightarrow> valid_landmarks (translate dx dy lm)"
  by (simp add: valid_landmarks_def translate_def list_all_iff)

lemma rel_loop_fp_closed:
  "1 < length w \<Longrightarrow> list_all (\<lambda>p. 1 < length p) ts \<Longrightarrow>
   rel_loop_fp ops ts w
     = Inr (concat (map (\<lambda>t. [f_sub ops (t ! 0) (w ! 0), f_sub ops (t ! 1) (w ! 1)]) ts))"
  by (induction ts) (auto simp: item_def)

lemma extract_features_fp_closed:
  assumes "valid_landmarks lm"
  shows "extract_features_fp ops (PointList lm)
     = ebind (angle_loop_fp ops [lm ! 5, lm ! 9, lm ! 13, lm ! 17] (lm ! 0)) (\<lambda>cos_angles.
         Inr (Some (head_features_fp ops lm @ cos_angles @ tail_features_fp ops lm)))"
proof -
  have len: "length lm = 21" and all2: "list_all (\<lambda>p. length p = 2) lm"
    using assms by (simp_all add: valid_landmarks_def)
  have arr: "np_array lm = Inr lm" using all2 by (rule np_array_uniform)
  have i0: "list_all (\<lambda>p. 0 < length p) lm" and i1: "list_all (\<lambda>p. 1 < length p) lm"
    using all2 by (auto simp: list_all_iff)
  have w: "1 < length (lm ! 0)" using valid_nth [OF assms, of 0] by simp
  let ?tips = "[lm ! 4, lm ! 8, lm ! 12, lm ! 16, lm ! 20]"
  have tl: "length (lm ! 4) = 2" "length (lm ! 8) = 2" "length (lm ! 12) = 2"
    "length (lm ! 16) = 2" "length (lm ! 20) = 2"
    by (simp_all add: valid_nth [OF assms])
  have t0: "list_all (\<lambda>p. 0 < length p) ?tips" and t1: "list_all (\<lambda>p. 1 < length p) ?tips"
    by (simp_all add: tl del: length_greater_0_conv)
  have x: "items ?tips 0 = Inr (map (\<lambda>p. p ! 0) ?tips)"
    using t0 by (rule items_in_range)
  have y: "items ?tips 1 = Inr (map (\<lambda>p. p ! 1) ?tips)"
    using t1 by (rule items_in_range)
  have r: "rel_loop_fp ops ?tips (lm ! 0)
             = Inr (concat (map (\<lambda>t. [f_sub ops (t ! 0) (lm ! 0 ! 0),
                                        f_sub ops (t ! 1) (lm ! 0 ! 1)]) ?tips))"
    using w t1 by (rule rel_loop_fp_closed)
  note facts = x y r items_in_range [OF i0] items_in_range [OF i1]
  show ?thesis
  proof (cases "angle_loop_fp ops [lm ! 5, lm ! 9, lm ! 13, lm ! 17] (lm ! 0)")
    case (Inl e)
    then show ?thesis
      by (simp add: extract_features_fp_def as_points_def len arr facts [unfolded One_nat_def]
            Let_def del: items.simps rel_loop_fp.simps angle_loop_fp.simps)
  next
    case (Inr cs)
    then show ?thesis
      by (simp add: extract_features_fp_def as_points_def len arr facts [unfolded One_nat_def]
            head_features_fp_def tail_features_fp_def Let_def
          del: items.simps rel_loop_fp.simps angle_loop_fp.simps)
  qed
qed

lemma vsub_fp_exact: "vsub_fp exact_ops = vsub"
  by (intro ext) (simp add: vsub_fp_def vsub_def exact_ops_def)

lemma cos_angle_fp_exact: "cos_angle_fp exact_ops = cos_angle"
  by (intro ext) (simp add: cos_angle_fp_def cos_angle_def fp_divide_def np_divide_def exact_ops_def)

lemma angle_loop_fp_exact: "angle_loop_fp exact_ops ms w = angle_loop ms w"
  by (induction ms w rule: angle_loop.induct) (simp_all add: vsub_fp_exact cos_angle_fp_exact)

lemma rel_loop_fp_exact: "rel_loop_fp exact_ops ts w = rel_loop ts w"
  by (induction ts) (simp_all add: exact_ops_def)

lemma exact_ops_fields:
  "f_sub exact_ops = (\<lambda>x y. x - y)" "f_mul exact_ops = (\<lambda>x y. x * y)"
  "f_norm exact_ops = linalg_norm" "f_mean exact_ops = np_mean"
  by (simp_all add: exact_ops_def)

lemma extract_features_fp_exact: "extract_features_fp exact_ops arg = extract_features arg"
  unfolding extract_features_fp_def extract_features_def
  by (simp only: vsub_fp_exact angle_loop_fp_exact rel_loop_fp_exact exact_ops_fields)


lemma vsub_fp_translate:
  assumes "length p = 2" "length q = 2" and "\<forall>x y. f_sub ops x y = rnd (x - y)"
  shows "vsub_fp ops [p ! 0 + dx, p ! 1 + dy] [q ! 0 + dx, q ! 1 + dy] = vsub_fp ops p q"
proof -
  have "vsub_fp ops [p ! 0 + dx, p ! 1 + dy] [q ! 0 + dx, q ! 1 + dy]
          = vsub_fp ops [p ! 0, p ! 1] [q ! 0, q ! 1]"
    by (simp add: vsub_fp_def assms(3))
  then show ?thesis
    using pair_point [OF assms(1)] pair_point [OF assms(2)] by simp
qed

lemma spread_fp_shift:
  assumes "xs \<noteq> []" and "\<forall>x y. f_sub ops x y = rnd (x - y)"
  shows "f_sub ops (py_max (map (\<lambda>x. x + d) xs)) (py_min (map (\<lambda>x. x + d) xs))
           = f_sub ops (py_max xs) (py_min xs)"
  using assms by (simp add: py_max_shift py_min_shift)

lemma features_fp_translate:
  assumes "valid_landmarks lm" and sub: "\<forall>x y. f_sub ops x y = rnd (x - y)"
  shows "head_features_fp ops (translate dx dy lm) = head_features_fp ops lm"
    and "tail_features_fp ops (translate dx dy lm) = tail_features_fp ops lm"
    and "angle_loop_fp ops [translate dx dy lm ! 5, translate dx dy lm ! 9,
                            translate dx dy lm ! 13, translate dx dy lm ! 17]
           (translate dx dy lm ! 0)
         = angle_loop_fp ops [lm ! 5, lm ! 9, lm ! 13, lm ! 17] (lm ! 0)"
proof -
  have len: "length lm = 21" using assms(1) by (simp add: valid_landmarks_def)
  have ne: "lm \<noteq> []" using len by auto
  have T: "translate dx dy lm ! i = [lm ! i ! 0 + dx, lm ! i ! 1 + dy]" if "i < 21" for i
    using that len by (simp add: translate_def)
  have L: "length (lm ! i) = 2" if "i < 21" for i
    using that assms(1) by (rule valid_nth [rotated])
  have V: "vsub_fp ops (translate dx dy lm ! i) (translate dx dy lm ! j)
             = vsub_fp ops (lm ! i) (lm ! j)"
    if "i < 21" "j < 21" for i j
    using that vsub_fp_translate [OF L L sub, of i j dx dy] by (simp add: T)
  have X: "map (\<lambda>p. p ! 0) (translate dx dy lm) = map (\<lambda>x. x + dx) (map (\<lambda>p. p ! 0) lm)"
    and Y: "map (\<lambda>p. p ! 1) (translate dx dy lm) = map (\<lambda>y. y + dy) (map (\<lambda>p. p ! 1) lm)"
    by (simp_all add: translate_def)
  have ax: "f_sub ops (py_max (map (\<lambda>p. p ! 0) (translate dx dy lm)))
                      (py_min (map (\<lambda>p. p ! 0) (translate dx dy lm)))
            = f_sub ops (py_max (map (\<lambda>p. p ! 0) lm)) (py_min (map (\<lambda>p. p ! 0) lm))"
    unfolding X using ne by (intro spread_fp_shift [OF _ sub]) simp
  have ay: "f_sub ops (py_max (map (\<lambda>p. p ! 1) (translate dx dy lm)))
                      (py_min (map (\<lambda>p. p ! 1) (translate dx dy lm)))
            = f_sub ops (py_max (map (\<lambda>p. p ! 1) lm)) (py_min (map (\<lambda>p. p ! 1) lm))"
    unfolding Y using ne by (intro spread_fp_shift [OF _ sub]) simp
  let ?tx = "[lm ! 4 ! 0, lm ! 8 ! 0, lm ! 12 ! 0, lm ! 16 ! 0, lm ! 20 ! 0]"
  let ?ty = "[lm ! 4 ! 1, lm ! 8 ! 1, lm ! 12 ! 1, lm ! 16 ! 1, lm ! 20 ! 1]"
  let ?tips' = "[translate dx dy lm ! 4, translate dx dy lm ! 8, translate dx dy lm ! 12,
                 translate dx dy lm ! 16, translate dx dy lm ! 20]"
  have tx: "f_sub ops (py_max (map (\<lambda>p. p ! 0) ?tips')) (py_min (map (\<lambda>p. p ! 0) ?tips'))
          = f_sub ops (py_max ?tx) (py_min ?tx)"
    using spread_fp_shift [OF _ sub, of ?tx dx] by (simp add: T)
  have ty: "f_sub ops (py_max (map (\<lambda>p. p ! 1) ?tips')) (py_min (map (\<lambda>p. p ! 1) ?tips'))
          = f_sub ops (py_max ?ty) (py_min ?ty)"
    using spread_fp_shift [OF _ sub, of ?ty dy] by (simp add: T)
  have R: "f_sub ops (translate dx dy lm ! i ! 0) (translate dx dy lm ! 0 ! 0)
             = f_sub ops (lm ! i ! 0) (lm ! 0 ! 0)"
          "f_sub ops (translate dx dy lm ! i ! 1) (translate dx dy lm ! 0 ! 1)
             = f_sub ops (lm ! i ! 1) (lm ! 0 ! 1)"
    if "i < 21" for i
    using that by (simp_all add: T sub)
  show "head_features_fp ops (translate dx dy lm) = head_features_fp ops lm"
    unfolding head_features_fp_def Let_def tx ty by (simp add: V)
  show "tail_features_fp ops (translate dx dy lm) = tail_features_fp ops lm"
    unfolding tail_features_fp_def Let_def ax ay by (simp add: R [unfolded One_nat_def])
  show "angle_loop_fp ops [translate dx dy lm ! 5, translate dx dy lm ! 9,
                            translate dx dy lm ! 13, translate dx dy lm ! 17]
           (translate dx dy lm ! 0)
         = angle_loop_fp ops [lm ! 5, lm ! 9, lm ! 13, lm ! 17] (lm ! 0)"
    by (simp add: V)
qed

lemma round_half_even_int: "round_half_even (of_int n) = n"
  by (simp add: round_half_even_def)

lemma round_half_even_ge: "of_int n \<le> x \<Longrightarrow> n \<le> round_half_even x"
proof -
  assume "of_int n \<le> x"
  then have "n \<le> \<lfloor>x\<rfloor>" by (simp add: le_floor_iff)
  then show ?thesis by (auto simp: round_half_even_def Let_def)
qed

lemma floor_log2:
  assumes "2 powr of_int n \<le> x" "x < 2 powr of_int (n + 1)"
  shows "\<lfloor>log 2 x\<rfloor> = n"
proof -
  have pos: "0 < x" using assms(1) by (smt (verit) powr_gt_zero)
  have "of_int n \<le> log 2 x" using assms(1) pos by (simp add: le_log_iff)
  moreover have "log 2 x < of_int (n + 1)" using assms(2) pos by (simp add: log_less_iff)
  ultimately show ?thesis by (simp add: floor_eq_iff)
qed

lemma powr_shift: "(2::real) powr of_int (int n - int k) = 2 ^ n / 2 ^ k"
proof -
  have "(2::real) powr of_int (int n - int k) = 2 powr (real n - real k)" by simp
  also have "\<dots> = 2 powr real n / 2 powr real k" by (rule powr_diff)
  also have "\<dots> = 2 ^ n / 2 ^ k" by (simp only: powr_realpow zero_less_numeral)
  finally show ?thesis .
qed

lemma round_double_scaled:
  fixes m :: real and k :: nat
  assumes "2 ^ 52 \<le> \<bar>m\<bar>" "\<bar>m\<bar> < 2 ^ 53"
  shows "round_double (m / 2 ^ k) = of_int (round_half_even m) / 2 ^ k"
proof -
  have m0: "m \<noteq> 0" using assms(1) by auto
  have a: "\<bar>m / 2 ^ k\<bar> = \<bar>m\<bar> / 2 ^ k"
    by simp
  have lo: "2 powr of_int (52 - int k) \<le> \<bar>m / 2 ^ k\<bar>"
    unfolding a using powr_shift [of 52 k] assms(1) by (simp add: divide_right_mono)
  have hi: "\<bar>m / 2 ^ k\<bar> < 2 powr of_int (52 - int k + 1)"
  proof -
    have "52 - int k + 1 = int 53 - int k" by simp
    then show ?thesis
      unfolding a using powr_shift [of 53 k] assms(2) by (simp add: divide_strict_right_mono)
  qed
  have e: "\<lfloor>log 2 \<bar>m / 2 ^ k\<bar>\<rfloor> - 52 = int 0 - int k"
    using floor_log2 [OF lo hi] by simp
  have p: "(2::real) powr of_int (int 0 - int k) = 1 / 2 ^ k"
    using powr_shift [of 0 k] by simp
  have "round_double (m / 2 ^ k)
      = of_int (round_half_even (m / 2 ^ k / 2 powr of_int (int 0 - int k)))
          * 2 powr of_int (int 0 - int k)"
    using m0 unfolding round_double_def Let_def e by simp
  also have "\<dots> = of_int (round_half_even m) / 2 ^ k"
    unfolding p by simp
  finally show ?thesis .
qed

lemma round_double_pos:
  assumes "0 < x"
  shows "0 < round_double x"
proof -
  let ?a = "real_of_int \<lfloor>log 2 x\<rfloor>"
  have le: "2 powr ?a \<le> x"
    using le_log_iff [of 2 x ?a] assms by simp
  have "2 powr ?a / 2 powr (?a - 52) = 2 powr (?a - (?a - 52))"
    by (rule powr_diff [symmetric])
  also have "\<dots> = 2 ^ 52"
    using powr_realpow [of 2 52] by simp
  finally have "2 ^ 52 = 2 powr ?a / 2 powr (?a - 52)" by simp
  also have "\<dots> \<le> x / 2 powr (?a - 52)"
    using le by (simp add: divide_right_mono)
  finally have "real_of_int (2 ^ 52) \<le> x / 2 powr (?a - 52)" by simp
  then have big: "2 ^ 52 \<le> round_half_even (x / 2 powr (?a - 52))"
    by (rule round_half_even_ge)
  have "(0::int) < 2 ^ 52" by simp
  then have "0 < round_half_even (x / 2 powr (?a - 52))"
    using big by (rule less_le_trans)
  then show ?thesis
    using assms by (simp add: round_double_def Let_def)
qed

lemma round_double_nonneg: "0 \<le> x \<Longrightarrow> 0 \<le> round_double x"
  using round_double_pos [of x] by (cases "x = 0") (simp_all add: round_double_def less_eq_real_def)

lemma double_dot_self_nonneg: "0 \<le> double_dot v v"
proof -
  have "0 \<le> s \<Longrightarrow> 0 \<le> foldl (\<lambda>s (x, y). round_double (s + round_double (x * y))) s (zip v v)"
    for s
  proof (induction v arbitrary: s)
    case Nil
    then show ?case by simp
  next
    case (Cons a v)
    have "0 \<le> round_double (a * a)" by (simp add: round_double_nonneg)
    then have "0 \<le> round_double (s + round_double (a * a))"
      using Cons.prems by (simp add: round_double_nonneg)
    then show ?case using Cons.IH by simp
  qed
  then show ?thesis by (simp add: double_dot_def)
qed

lemma double_norm_nonneg: "0 \<le> f_norm double_ops v"
  by (simp add: double_ops_def round_double_nonneg double_dot_self_nonneg)

lemma double_denominator_pos:
  "0 < f_add double_ops (f_mul double_ops (f_norm double_ops a) (f_norm double_ops b))
         (f_epsilon double_ops)"
proof -
  have "0 \<le> f_norm double_ops a * f_norm double_ops b"
    by (simp add: double_norm_nonneg)
  then have "0 \<le> f_mul double_ops (f_norm double_ops a) (f_norm double_ops b)"
    by (simp add: double_ops_def round_double_nonneg)
  moreover have "0 < f_epsilon double_ops"
    by (simp add: double_ops_def round_double_pos)
  ultimately have "0 < f_mul double_ops (f_norm double_ops a) (f_norm double_ops b)
                        + f_epsilon double_ops"
    by linarith
  then have "0 < round_double (f_mul double_ops (f_norm double_ops a) (f_norm double_ops b)
                        + f_epsilon double_ops)"
    by (rule round_double_pos)
  then show ?thesis by (simp add: double_ops_def)
qed

lemma cos_angle_double:
  "\<exists>c. cos_angle_fp double_ops a b = Inr c"
  using double_denominator_pos [of a b] by (simp add: cos_angle_fp_def fp_divide_def)

lemma angle_loop_double:
  "\<exists>c1 c2 c3. angle_loop_fp double_ops [m1, m2, m3, m4] w = Inr [c1, c2, c3]"
proof -
  obtain c1 where 1: "cos_angle_fp double_ops (vsub_fp double_ops m1 w) (vsub_fp double_ops m2 w) = Inr c1"
    using cos_angle_double by blast
  obtain c2 where 2: "cos_angle_fp double_ops (vsub_fp double_ops m2 w) (vsub_fp double_ops m3 w) = Inr c2"
    using cos_angle_double by blast
  obtain c3 where 3: "cos_angle_fp double_ops (vsub_fp double_ops m3 w) (vsub_fp double_ops m4 w) = Inr c3"
    using cos_angle_double by blast
  show ?thesis by (simp add: 1 2 3)
qed

lemma length_head_features_fp: "length (head_features_fp ops lm) = 10"
  by (simp add: head_features_fp_def Let_def)

lemma tail_features_fp_thumb: "tail_features_fp ops lm ! 1 = f_sub ops (lm ! 4 ! 0) (lm ! 0 ! 0)"
  by (simp add: tail_features_fp_def Let_def)

lemma length_tail_features_fp: "length (tail_features_fp ops lm) = 11"
  by (simp add: tail_features_fp_def Let_def)

lemma feature_14_double:
  assumes "valid_landmarks lm"
  shows "feature (extract_features_fp double_ops (PointList lm)) 14
           = Some (round_double (lm ! 4 ! 0 - lm ! 0 ! 0))"
proof -
  obtain c1 c2 c3 where
    c: "angle_loop_fp double_ops [lm ! 5, lm ! 9, lm ! 13, lm ! 17] (lm ! 0) = Inr [c1, c2, c3]"
    using angle_loop_double by blast
  have s: "f_sub double_ops (lm ! 4 ! 0) (lm ! 0 ! 0) = round_double (lm ! 4 ! 0 - lm ! 0 ! 0)"
    by (simp add: double_ops_def)
  show ?thesis
    by (simp add: extract_features_fp_closed [OF assms] c feature_def nth_append
        length_head_features_fp length_tail_features_fp
        tail_features_fp_thumb [unfolded One_nat_def] s
        del: angle_loop_fp.simps)
qed

lemma valid_decimal_hand: "valid_landmarks decimal_hand"
  by (auto simp: valid_landmarks_def decimal_hand_def list_all_iff
      dest!: set_update_subset_insert [THEN subsetD])

lemma valid_translate_fp: "valid_landmarks lm \<Longrightarrow> valid_landmarks (translate_fp ops dx dy lm)"
  by (simp add: valid_landmarks_def translate_fp_def list_all_iff)

lemma double_literals:
  "round_double (1 / 10) = 7205759403792794 / 2 ^ 56"
  "round_double (1 / 5) = 7205759403792794 / 2 ^ 55"
  "round_double (1 / 20) = 7205759403792794 / 2 ^ 57"
proof -
  have r: "round_half_even (2 ^ 56 / 10) = 7205759403792794"
    by (simp add: round_half_even_def Let_def)
  have "round_double ((2 ^ 56 / 10) / 2 ^ 56) = of_int (round_half_even (2 ^ 56 / 10)) / 2 ^ 56"
    by (rule round_double_scaled) simp_all
  then show "round_double (1 / 10) = 7205759403792794 / 2 ^ 56"
    unfolding r by simp
  have "round_double ((2 ^ 56 / 10) / 2 ^ 55) = of_int (round_half_even (2 ^ 56 / 10)) / 2 ^ 55"
    by (rule round_double_scaled) simp_all
  then show "round_double (1 / 5) = 7205759403792794 / 2 ^ 55"
    unfolding r by simp
  have "round_double ((2 ^ 56 / 10) / 2 ^ 57) = of_int (round_half_even (2 ^ 56 / 10)) / 2 ^ 57"
    by (rule round_double_scaled) simp_all
  then show "round_double (1 / 20) = 7205759403792794 / 2 ^ 57"
    unfolding r by simp
qed

lemma double_sums:
  "round_double (7205759403792794 / 2 ^ 56 + 7205759403792794 / 2 ^ 57) = 5404319552844596 / 2 ^ 55"
  "round_double (7205759403792794 / 2 ^ 55 + 7205759403792794 / 2 ^ 57) = 4503599627370496 / 2 ^ 54"
proof -
  have r1: "round_half_even (10808639105689191 / 2) = 5404319552844596"
    by (simp add: round_half_even_def Let_def)
  have "round_double ((10808639105689191 / 2) / 2 ^ 55)
          = of_int (round_half_even (10808639105689191 / 2)) / 2 ^ 55"
    by (rule round_double_scaled) simp_all
  then show "round_double (7205759403792794 / 2 ^ 56 + 7205759403792794 / 2 ^ 57)
               = 5404319552844596 / 2 ^ 55"
    unfolding r1 by simp
  have r2: "round_half_even (18014398509481985 / 4) = 4503599627370496"
    by (simp add: round_half_even_def Let_def)
  have "round_double ((18014398509481985 / 4) / 2 ^ 54)
          = of_int (round_half_even (18014398509481985 / 4)) / 2 ^ 54"
    by (rule round_double_scaled) simp_all
  then show "round_double (7205759403792794 / 2 ^ 55 + 7205759403792794 / 2 ^ 57)
               = 4503599627370496 / 2 ^ 54"
    unfolding r2 by simp
qed

lemma double_differences:
  "round_double (7205759403792794 / 2 ^ 56 - 7205759403792794 / 2 ^ 55)
     = - (7205759403792794 / 2 ^ 56)"
  "round_double (5404319552844596 / 2 ^ 55 - 4503599627370496 / 2 ^ 54)
     = - (7205759403792792 / 2 ^ 56)"
proof -
  have "round_double (of_int (- 7205759403792794) / 2 ^ 56)
          = of_int (round_half_even (of_int (- 7205759403792794))) / 2 ^ 56"
    by (rule round_double_scaled) simp_all
  then show "round_double (7205759403792794 / 2 ^ 56 - 7205759403792794 / 2 ^ 55)
     = - (7205759403792794 / 2 ^ 56)"
    unfolding round_half_even_int by simp
  have "round_double (of_int (- 7205759403792792) / 2 ^ 56)
          = of_int (round_half_even (of_int (- 7205759403792792))) / 2 ^ 56"
    by (rule round_double_scaled) simp_all
  then show "round_double (5404319552844596 / 2 ^ 55 - 4503599627370496 / 2 ^ 54)
     = - (7205759403792792 / 2 ^ 56)"
    unfolding round_half_even_int by simp
qed

lemma open_hand_valid: "valid_landmarks open_hand"
  by (simp add: valid_landmarks_def open_hand_def open_hand_grid_def)

lemma round_double_dyadic:
  fixes n :: int and k :: nat
  assumes "\<bar>n\<bar> < 2 ^ 53"
  shows "round_double (of_int n / 2 ^ k) = of_int n / 2 ^ k"
proof (cases "n = 0")
  case True
  then show ?thesis by (simp add: round_double_def)
next
  case False
  let ?x = "real_of_int n / 2 ^ k"
  define e where "e = \<lfloor>log 2 \<bar>?x\<bar>\<rfloor> - 52"
  have x0: "?x \<noteq> 0" using False by simp
  have ax: "\<bar>?x\<bar> = \<bar>real_of_int n\<bar> / 2 ^ k" by simp
  have "\<bar>real_of_int n\<bar> < 2 ^ 53"
    using assms by (metis of_int_abs of_int_less_numeral_power_cancel_iff)
  then have "\<bar>?x\<bar> < 2 ^ 53 / 2 ^ k"
    unfolding ax by (simp add: divide_strict_right_mono)
  then have "\<bar>?x\<bar> < 2 powr of_int (int 53 - int k)"
    by (simp only: powr_shift)
  then have "log 2 \<bar>?x\<bar> < of_int (int 53 - int k)"
    using x0 by (simp add: log_less_iff)
  then have "\<lfloor>log 2 \<bar>?x\<bar>\<rfloor> < int 53 - int k"
    by (simp only: floor_less_iff)
  then have le: "e \<le> - int k" by (simp add: e_def)
  define j where "j = nat (- int k - e)"
  have e: "e = int 0 - int (k + j)" using le by (simp add: j_def)
  have p: "(2::real) powr of_int e = 1 / 2 ^ (k + j)"
    unfolding e using powr_shift [of 0 "k + j"] by simp
  have q: "?x / (1 / 2 ^ (k + j)) = of_int (n * 2 ^ j)"
    by (simp add: power_add)
  have "round_double ?x = of_int (round_half_even (?x / 2 powr of_int e)) * 2 powr of_int e"
    using x0 by (simp add: round_double_def Let_def e_def)
  also have "\<dots> = of_int (n * 2 ^ j) * (1 / 2 ^ (k + j))"
    by (simp only: p q round_half_even_int)
  also have "\<dots> = ?x" by (simp add: power_add)
  finally show ?thesis .
qed


lemma shifted_grid_point_exact:
  assumes "\<bar>a\<bar> < 2 ^ 52" "\<bar>b\<bar> < 2 ^ 52"
  shows "round_double (real_of_int a / 64 + 1 / 8) = real_of_int a / 64 + 1 / 8"
    and "round_double (real_of_int b / 64 - 1 / 16) = real_of_int b / 64 - 1 / 16"
proof -
  have a: "real_of_int a / 64 + 1 / 8 = of_int (a + 8) / 2 ^ 6" by simp
  have b: "real_of_int b / 64 - 1 / 16 = of_int (b - 4) / 2 ^ 6" by simp
  have "\<bar>a + 8\<bar> < 2 ^ 53" "\<bar>b - 4\<bar> < 2 ^ 53" using assms by simp_all
  then show "round_double (real_of_int a / 64 + 1 / 8) = real_of_int a / 64 + 1 / 8"
    and "round_double (real_of_int b / 64 - 1 / 16) = real_of_int b / 64 - 1 / 16"
    unfolding a b by (simp_all only: round_double_dyadic)
qed

lemma open_hand_translation_exact:
  "translate_fp double_ops (1 / 8) (- (1 / 16)) open_hand
     = translate (1 / 8) (- (1 / 16)) open_hand"
proof -
  have g: "\<forall>p\<in>set open_hand_grid. \<bar>fst p\<bar> < 2 ^ 52 \<and> \<bar>snd p\<bar> < 2 ^ 52"
    by (simp add: open_hand_grid_def)
  show ?thesis
    unfolding translate_fp_def translate_def open_hand_def map_map
  proof (rule map_cong [OF refl])
    fix p assume "p \<in> set open_hand_grid"
    then have "\<bar>fst p\<bar> < 2 ^ 52" "\<bar>snd p\<bar> < 2 ^ 52" using g by auto
    then show "((\<lambda>p. [f_add double_ops (p ! 0) (1 / 8), f_add double_ops (p ! 1) (- (1 / 16))])
                 \<circ> (\<lambda>(a, b). [of_int a / 64, of_int b / 64])) p
             = ((\<lambda>p. [p ! 0 + 1 / 8, p ! 1 + - (1 / 16)])
                 \<circ> (\<lambda>(a, b). [of_int a / 64, of_int b / 64])) p"
      by (cases p) (simp add: double_ops_def shifted_grid_point_exact)
  qed
qed


text \<open>
  Claim C5, as the code has it.  When the translated landmark set is exactly the original
  moved by \<open>(dx, dy)\<close>, the extracted vector is unchanged, and with it every
  wrist-relative and inter-point distance feature: in exact arithmetic, and in every
  arithmetic whose subtraction returns a function of the exact difference, as the
  correctly rounded subtraction of IEEE doubles does.  The extractor reads coordinates
  only through differences.
\<close>

theorem translation_invariant_under_rounding:
  assumes "valid_landmarks lm" and "\<forall>x y. f_sub ops x y = rnd (x - y)"
  shows "extract_features_fp ops (PointList (translate dx dy lm))
           = extract_features_fp ops (PointList lm)
         \<and> extract_features (PointList (translate dx dy lm)) = extract_features (PointList lm)"
proof
  show "extract_features_fp ops (PointList (translate dx dy lm))
           = extract_features_fp ops (PointList lm)"
    by (simp only: extract_features_fp_closed [OF assms(1)]
        extract_features_fp_closed [OF valid_translate [OF assms(1)]]
        features_fp_translate [OF assms])
  have e: "\<forall>x y. f_sub exact_ops x y = (\<lambda>d. d) (x - y)"
    by (simp add: exact_ops_def)
  have "extract_features_fp exact_ops (PointList (translate dx dy lm))
           = extract_features_fp exact_ops (PointList lm)"
    by (simp only: extract_features_fp_closed [OF assms(1)]
        extract_features_fp_closed [OF valid_translate [OF assms(1)]]
        features_fp_translate [OF assms(1) e])
  then show "extract_features (PointList (translate dx dy lm)) = extract_features (PointList lm)"
    by (simp only: extract_features_fp_exact)
qed

theorem translation_invariant_under_rounding_witness:
  "valid_landmarks open_hand
   \<and> (\<forall>x y. f_sub double_ops x y = round_double (x - y))
   \<and> translate_fp double_ops (1 / 8) (- (1 / 16)) open_hand
       = translate (1 / 8) (- (1 / 16)) open_hand
   \<and> extract_features_fp double_ops
        (PointList (translate_fp double_ops (1 / 8) (- (1 / 16)) open_hand))
       = extract_features_fp double_ops (PointList open_hand)
   \<and> extract_features (PointList (translate (1 / 8) (- (1 / 16)) open_hand))
       = extract_features (PointList open_hand)"
proof -
  have s: "\<forall>x y. f_sub double_ops x y = round_double (x - y)"
    by (simp add: double_ops_def)
  show ?thesis
    using open_hand_valid s open_hand_translation_exact
      translation_invariant_under_rounding [OF open_hand_valid s, of "1 / 8" "- (1 / 16)"]
    by simp
qed

text \<open>
  With the translation computed in doubles the features are not unchanged.  Wrist at
  \<open>x = 0.2\<close>, thumb tip at \<open>x = 0.1\<close>, offset \<open>0.05\<close>: the thumb's horizontal offset from
  the wrist (entry 14) is \<open>-0.1\<close> before and \<open>-0.09999999999999998\<close> after, two units in
  the last place apart.
\<close>

theorem translation_changes_last_bits:
  "feature (extract_features_fp double_ops (PointList decimal_hand)) 14
     = Some (- (7205759403792794 / 2 ^ 56))
   \<and> feature (extract_features_fp double_ops
        (PointList (translate_fp double_ops (round_double (1 / 20)) 0 decimal_hand))) 14
     = Some (- (7205759403792792 / 2 ^ 56))"
proof -
  have a: "decimal_hand ! 4 ! 0 = 7205759403792794 / 2 ^ 56"
    "decimal_hand ! 0 ! 0 = 7205759403792794 / 2 ^ 55"
    by (simp_all add: decimal_hand_def double_literals)
  have len: "length decimal_hand = 21" by (simp add: decimal_hand_def)
  have t: "translate_fp double_ops d 0 decimal_hand ! i ! 0
             = round_double (decimal_hand ! i ! 0 + d)" if "i < 21" for i d
    using that by (simp add: translate_fp_def len double_ops_def)
  have b: "translate_fp double_ops (round_double (1 / 20)) 0 decimal_hand ! 4 ! 0
             = 5404319552844596 / 2 ^ 55"
    "translate_fp double_ops (round_double (1 / 20)) 0 decimal_hand ! 0 ! 0
             = 4503599627370496 / 2 ^ 54"
    by (simp_all only: t [of 4, simplified] t [of 0, simplified] a double_literals double_sums)
  show ?thesis
    by (simp only: feature_14_double [OF valid_decimal_hand]
        feature_14_double [OF valid_translate_fp [OF valid_decimal_hand]]
        a b double_differences simp_thms)
qed


section \<open>The angle cosines are always defined\<close>

lemma feature_formula_cosines:
  "feature_formula lm ! 10 =
     np_dot (vsub (lm ! 5) (lm ! 0)) (vsub (lm ! 9) (lm ! 0))
       / (linalg_norm (vsub (lm ! 5) (lm ! 0)) * linalg_norm (vsub (lm ! 9) (lm ! 0)) + epsilon)"
  "feature_formula lm ! 11 =
     np_dot (vsub (lm ! 9) (lm ! 0)) (vsub (lm ! 13) (lm ! 0))
       / (linalg_norm (vsub (lm ! 9) (lm ! 0)) * linalg_norm (vsub (lm ! 13) (lm ! 0)) + epsilon)"
  "feature_formula lm ! 12 =
     np_dot (vsub (lm ! 13) (lm ! 0)) (vsub (lm ! 17) (lm ! 0))
       / (linalg_norm (vsub (lm ! 13) (lm ! 0)) * linalg_norm (vsub (lm ! 17) (lm ! 0)) + epsilon)"
  by (simp_all add: feature_formula_def Let_def)

lemma np_dot_vsub_self: "np_dot (vsub p p) v = 0"
proof -
  have "sum_list (map2 (\<lambda>x y. x * y) (map2 (\<lambda>x y. x - y) p q) v) = 0" if "q = p" for q
    using that
  proof (induction p arbitrary: q v)
    case Nil
    then show ?case by simp
  next
    case (Cons a p)
    then show ?case by (cases v) simp_all
  qed
  then show ?thesis by (simp add: np_dot_def vsub_def)
qed

lemma normalized_point:
  assumes "normalized_landmarks lm" "i < 21"
  obtains x y where "lm ! i = [x, y]" "0 \<le> x" "x \<le> 1" "0 \<le> y" "y \<le> 1"
proof -
  have v: "valid_landmarks lm" and len: "length lm = 21"
    using assms(1) by (simp_all add: normalized_landmarks_def valid_landmarks_def)
  have "length (lm ! i) = 2" using v assms(2) by (rule valid_nth)
  then have p: "lm ! i = [lm ! i ! 0, lm ! i ! 1]" by (rule pair_point)
  have "list_all (\<lambda>c. 0 \<le> c \<and> c \<le> 1) (lm ! i)"
    using assms len by (simp add: normalized_landmarks_def list_all_length)
  then have "0 \<le> lm ! i ! 0 \<and> lm ! i ! 0 \<le> 1 \<and> 0 \<le> lm ! i ! 1 \<and> lm ! i ! 1 \<le> 1"
    by (subst (asm) p) simp
  then show ?thesis using that p by blast
qed

lemma norm_pair: "linalg_norm [x, y] = sqrt (x * x + y * y)"
  by (simp add: linalg_norm_def)

lemma dot_pair: "np_dot [x1, y1] [x2, y2] = x1 * x2 + y1 * y2"
  by (simp add: np_dot_def)

lemma norm_pair_le:
  assumes "\<bar>x\<bar> \<le> 1" "\<bar>y\<bar> \<le> 1"
  shows "linalg_norm [x, y] \<le> sqrt 2"
proof -
  have "x * x \<le> 1" "y * y \<le> 1"
    using assms by (simp_all add: abs_le_square_iff [of _ 1, simplified] power2_eq_square [symmetric])
  then have "x * x + y * y \<le> 2" by linarith
  then show ?thesis by (simp add: norm_pair)
qed

lemma cauchy_schwarz_pair:
  "\<bar>np_dot [x1, y1] [x2, y2]\<bar> \<le> linalg_norm [x1, y1] * linalg_norm [x2, y2]"
proof -
  have "(x1 * x2 + y1 * y2)\<^sup>2 \<le> (x1 * x1 + y1 * y1) * (x2 * x2 + y2 * y2)"
  proof -
    have "(x1 * x1 + y1 * y1) * (x2 * x2 + y2 * y2) - (x1 * x2 + y1 * y2)\<^sup>2
            = (x1 * y2 - y1 * x2)\<^sup>2"
      by (simp add: power2_eq_square algebra_simps)
    moreover have "0 \<le> (x1 * y2 - y1 * x2)\<^sup>2" by simp
    ultimately show ?thesis by linarith
  qed
  then have "sqrt ((x1 * x2 + y1 * y2)\<^sup>2) \<le> sqrt ((x1 * x1 + y1 * y1) * (x2 * x2 + y2 * y2))"
    by (rule real_sqrt_le_mono)
  then show ?thesis
    by (simp add: dot_pair norm_pair real_sqrt_mult)
qed

lemma cosine_pair:
  assumes "\<bar>x1\<bar> \<le> 1" "\<bar>y1\<bar> \<le> 1" "\<bar>x2\<bar> \<le> 1" "\<bar>y2\<bar> \<le> 1"
  shows "\<bar>np_dot [x1, y1] [x2, y2]\<bar> \<le> 2"
    and "linalg_norm [x1, y1] \<le> 2" and "linalg_norm [x2, y2] \<le> 2"
    and "linalg_norm [x1, y1] * linalg_norm [x2, y2] \<le> 2"
    and "\<bar>np_dot [x1, y1] [x2, y2]
          / (linalg_norm [x1, y1] * linalg_norm [x2, y2] + epsilon)\<bar> < 1"
proof -
  let ?n1 = "linalg_norm [x1, y1]" and ?n2 = "linalg_norm [x2, y2]"
  have n1: "?n1 \<le> sqrt 2" and n2: "?n2 \<le> sqrt 2"
    using assms by (simp_all add: norm_pair_le)
  have s2: "sqrt 2 \<le> 2"
    using real_sqrt_le_mono [of 2 4] by simp
  show "?n1 \<le> 2" "?n2 \<le> 2" using n1 n2 s2 by linarith+
  have "?n1 * ?n2 \<le> sqrt 2 * sqrt 2"
    using n1 n2 linalg_norm_nonneg by (intro mult_mono) auto
  then show p: "?n1 * ?n2 \<le> 2" by simp
  have cs: "\<bar>np_dot [x1, y1] [x2, y2]\<bar> \<le> ?n1 * ?n2"
    by (rule cauchy_schwarz_pair)
  then show "\<bar>np_dot [x1, y1] [x2, y2]\<bar> \<le> 2" using p by linarith
  have e: "0 < epsilon" by (simp add: epsilon_def)
  have "0 \<le> ?n1 * ?n2" by (simp add: linalg_norm_nonneg)
  then have d: "0 < ?n1 * ?n2 + epsilon" using e by linarith
  have "\<bar>np_dot [x1, y1] [x2, y2]\<bar> < ?n1 * ?n2 + epsilon"
    using cs e by linarith
  then show "\<bar>np_dot [x1, y1] [x2, y2] / (?n1 * ?n2 + epsilon)\<bar> < 1"
    using d by (simp add: abs_if divide_less_eq less_divide_eq split: if_splits)
qed

lemma mcp_pair_bounded:
  assumes "normalized_landmarks lm" "i < 21" "j < 21"
  shows "cosine_operands_bounded (lm ! 0) (lm ! i) (lm ! j)"
    and "\<bar>np_dot (vsub (lm ! i) (lm ! 0)) (vsub (lm ! j) (lm ! 0))
          / (linalg_norm (vsub (lm ! i) (lm ! 0)) * linalg_norm (vsub (lm ! j) (lm ! 0)) + epsilon)\<bar> < 1"
proof -
  obtain wx wy where w: "lm ! 0 = [wx, wy]" "0 \<le> wx" "wx \<le> 1" "0 \<le> wy" "wy \<le> 1"
    using assms(1) by (rule normalized_point [of lm 0]) simp
  obtain ax ay where a: "lm ! i = [ax, ay]" "0 \<le> ax" "ax \<le> 1" "0 \<le> ay" "ay \<le> 1"
    using assms(1,2) by (rule normalized_point)
  obtain bx by' where b: "lm ! j = [bx, by']" "0 \<le> bx" "bx \<le> 1" "0 \<le> by'" "by' \<le> 1"
    using assms(1,3) by (rule normalized_point)
  have v: "vsub (lm ! i) (lm ! 0) = [ax - wx, ay - wy]" "vsub (lm ! j) (lm ! 0) = [bx - wx, by' - wy]"
    by (simp_all add: vsub_def w a b)
  have r: "\<bar>ax - wx\<bar> \<le> 1" "\<bar>ay - wy\<bar> \<le> 1" "\<bar>bx - wx\<bar> \<le> 1" "\<bar>by' - wy\<bar> \<le> 1"
    using w a b by (simp_all add: abs_le_iff)
  note c = cosine_pair [OF r]
  have e: "0 < epsilon" by (simp add: epsilon_def)
  show "cosine_operands_bounded (lm ! 0) (lm ! i) (lm ! j)"
    unfolding cosine_operands_bounded_def Let_def v
    using c(1-4) r by (simp add: linalg_norm_nonneg)
  show "\<bar>np_dot (vsub (lm ! i) (lm ! 0)) (vsub (lm ! j) (lm ! 0))
          / (linalg_norm (vsub (lm ! i) (lm ! 0)) * linalg_norm (vsub (lm ! j) (lm ! 0)) + epsilon)\<bar> < 1"
    unfolding v by (rule c(5))
qed

text \<open>
  Claim C6.  On every landmark set of 21 points with coordinates between 0 and 1 the loop
  over the MCP pairs returns three numbers, entries 10, 11 and 12 of the feature vector of
  both extractors.  The denominator of each is the product of the two norms plus
  \<open>1e-6\<close>, so it lies between \<open>1e-6\<close> and \<open>2 + 1e-6\<close>; vector components are at most 1
  in size, dot product and norm product at most 2, and each cosine is smaller than 1 in
  size.  Nothing comes near zero division or the range of doubles.  When all four MCP
  points coincide with the wrist the three cosines are 0.
\<close>

theorem cosine_features_finite:
  assumes "normalized_landmarks lm"
  shows "\<exists>fs. extract_features (PointList lm) = Inr (Some fs)
      \<and> extract_advanced_features lm = Inr (Some fs)
      \<and> angle_loop [lm ! 5, lm ! 9, lm ! 13, lm ! 17] (lm ! 0) = Inr [fs ! 10, fs ! 11, fs ! 12]
      \<and> epsilon = 1 / 1000000
      \<and> cosine_operands_bounded (lm ! 0) (lm ! 5) (lm ! 9)
      \<and> cosine_operands_bounded (lm ! 0) (lm ! 9) (lm ! 13)
      \<and> cosine_operands_bounded (lm ! 0) (lm ! 13) (lm ! 17)
      \<and> \<bar>fs ! 10\<bar> < 1 \<and> \<bar>fs ! 11\<bar> < 1 \<and> \<bar>fs ! 12\<bar> < 1
      \<and> (lm ! 5 = lm ! 0 \<and> lm ! 9 = lm ! 0 \<and> lm ! 13 = lm ! 0 \<and> lm ! 17 = lm ! 0
           \<longrightarrow> fs ! 10 = 0 \<and> fs ! 11 = 0 \<and> fs ! 12 = 0)"
proof -
  have v: "valid_landmarks lm"
    using assms by (simp add: normalized_landmarks_def)
  have loop: "angle_loop [lm ! 5, lm ! 9, lm ! 13, lm ! 17] (lm ! 0)
      = Inr [feature_formula lm ! 10, feature_formula lm ! 11, feature_formula lm ! 12]"
    by (simp add: angle_loop_closed feature_formula_cosines)
  have bounded: "cosine_operands_bounded (lm ! 0) (lm ! 5) (lm ! 9)"
    "cosine_operands_bounded (lm ! 0) (lm ! 9) (lm ! 13)"
    "cosine_operands_bounded (lm ! 0) (lm ! 13) (lm ! 17)"
    using assms by (simp_all add: mcp_pair_bounded(1))
  have small: "\<bar>feature_formula lm ! 10\<bar> < 1" "\<bar>feature_formula lm ! 11\<bar> < 1"
    "\<bar>feature_formula lm ! 12\<bar> < 1"
    unfolding feature_formula_cosines
    by (rule mcp_pair_bounded(2) [OF assms]; simp)+
  have degenerate: "feature_formula lm ! 10 = 0 \<and> feature_formula lm ! 11 = 0
      \<and> feature_formula lm ! 12 = 0"
    if "lm ! 5 = lm ! 0 \<and> lm ! 9 = lm ! 0 \<and> lm ! 13 = lm ! 0 \<and> lm ! 17 = lm ! 0"
    using that by (simp add: feature_formula_cosines np_dot_vsub_self)
  show ?thesis
    using loop bounded small degenerate
    by (simp add: extract_features_closed [OF v] extract_advanced_features_closed [OF v]
        epsilon_def)
qed

lemma normalized_zero_hand: "normalized_landmarks zero_hand"
  by (simp add: normalized_landmarks_def valid_zero_hand) (simp add: zero_hand_def list_all_iff)

lemma normalized_open_hand: "normalized_landmarks open_hand"
  by (simp add: normalized_landmarks_def valid_landmarks_def open_hand_def open_hand_grid_def)


theorem cosine_features_finite_witness:
  "normalized_landmarks open_hand
   \<and> (\<exists>fs. extract_features (PointList open_hand) = Inr (Some fs)
         \<and> angle_loop [open_hand ! 5, open_hand ! 9, open_hand ! 13, open_hand ! 17] (open_hand ! 0)
             = Inr [fs ! 10, fs ! 11, fs ! 12]
         \<and> cosine_operands_bounded (open_hand ! 0) (open_hand ! 5) (open_hand ! 9)
         \<and> \<bar>fs ! 10\<bar> < 1 \<and> \<bar>fs ! 11\<bar> < 1 \<and> \<bar>fs ! 12\<bar> < 1)
   \<and> normalized_landmarks zero_hand
   \<and> (zero_hand ! 5 = zero_hand ! 0 \<and> zero_hand ! 9 = zero_hand ! 0
        \<and> zero_hand ! 13 = zero_hand ! 0 \<and> zero_hand ! 17 = zero_hand ! 0)
   \<and> (\<exists>fs. extract_features (PointList zero_hand) = Inr (Some fs)
         \<and> angle_loop [zero_hand ! 5, zero_hand ! 9, zero_hand ! 13, zero_hand ! 17] (zero_hand ! 0)
             = Inr [fs ! 10, fs ! 11, fs ! 12]
         \<and> fs ! 10 = 0 \<and> fs ! 11 = 0 \<and> fs ! 12 = 0)"
proof -
  have d: "zero_hand ! 5 = zero_hand ! 0 \<and> zero_hand ! 9 = zero_hand ! 0
        \<and> zero_hand ! 13 = zero_hand ! 0 \<and> zero_hand ! 17 = zero_hand ! 0"
    by (simp add: zero_hand_def)
  from cosine_features_finite [OF normalized_open_hand]
    cosine_features_finite [OF normalized_zero_hand] normalized_open_hand normalized_zero_hand d
  show ?thesis by blast
qed

section \<open>Inference\<close>

lemma py_max_eq_Max: "xs \<noteq> [] \<Longrightarrow> py_max xs = Max (set xs)"
  by (cases xs) (simp_all add: py_max_def Max.set_eq_fold [symmetric])

lemma predict_unavailable:
  "gc_model self = None \<Longrightarrow> predict self arg = Inr None"
  by (simp add: predict_def)

lemma predict_no_features:
  "extract_features arg = Inr None \<Longrightarrow> predict self arg = Inr None"
  by (simp add: predict_def split: option.splits)

lemma predict_raises:
  "gc_model self = Some m \<Longrightarrow> extract_features arg = Inl e \<Longrightarrow> predict self arg = Inl e"
  by (simp add: predict_def)

lemma init_unloadable:
  "model_file = Missing \<or> model_file = Unreadable \<Longrightarrow>
   \<not> is_available (init model_file metadata_file)"
  by (auto simp: init_def is_available_def)

text \<open>
  Claim C2.  With a loaded model and a valid landmark set, \<open>predict\<close> returns a result
  whose \<open>is_closed\<close> says that the label is 0, whose \<open>raw_value\<close> is the label, and whose
  \<open>confidence\<close> is the largest class probability when the model has \<open>predict_proba\<close>
  and 1 otherwise.  The confidence lies between 0 and 1; for that the estimator's
  probability vectors are taken to be what scikit-learn documents, non-empty with entries
  between 0 and 1.
\<close>

theorem predict_result:
  assumes "valid_landmarks lm" and "gc_model self = Some m"
    and "\<forall>proba row. clf_predict_proba m = Some proba \<longrightarrow>
           proba row \<noteq> [] \<and> (\<forall>p\<in>set (proba row). 0 \<le> p \<and> p \<le> 1)"
  shows "\<exists>fs r. extract_features (PointList lm) = Inr (Some fs)
           \<and> predict self (PointList lm) = Inr (Some r)
           \<and> is_closed r = (clf_predict m fs = 0)
           \<and> raw_value r = real_of_int (clf_predict m fs)
           \<and> confidence r = (case clf_predict_proba m of
                                Some proba \<Rightarrow> Max (set (proba fs)) | None \<Rightarrow> 1)
           \<and> 0 \<le> confidence r \<and> confidence r \<le> 1"
proof -
  let ?fs = "feature_formula lm"
  have ex: "extract_features (PointList lm) = Inr (Some ?fs)"
    using assms(1) by (rule extract_features_closed)
  show ?thesis
  proof (cases "clf_predict_proba m")
    case None
    then show ?thesis
      using ex assms(2) by (simp add: predict_def Let_def)
  next
    case (Some proba)
    then have ne: "proba ?fs \<noteq> []" and rng: "\<forall>p\<in>set (proba ?fs). 0 \<le> p \<and> p \<le> 1"
      using assms(3) by simp_all
    have "Max (set (proba ?fs)) \<in> set (proba ?fs)"
      using ne by (simp add: Max_in)
    then have "0 \<le> Max (set (proba ?fs)) \<and> Max (set (proba ?fs)) \<le> 1"
      using rng by blast
    then show ?thesis
      using ex assms(2) Some ne by (simp add: predict_def Let_def py_max_eq_Max)
  qed
qed

lemma thumb_rule_probabilities:
  "\<forall>proba row. clf_predict_proba thumb_rule = Some proba \<longrightarrow>
      proba row \<noteq> [] \<and> (\<forall>p\<in>set (proba row). 0 \<le> p \<and> p \<le> 1)"
  by (auto simp: thumb_rule_def)

lemma predict_zero_hand:
  "predict (init (Readable thumb_rule) Missing) (PointList zero_hand)
     = Inr (Some \<lparr>is_closed = True, confidence = 9 / 10, raw_value = 0,
                   probabilities = Some [9 / 10, 1 / 10]\<rparr>)"
proof -
  have m: "gc_model (init (Readable thumb_rule) Missing) = Some thumb_rule"
    by (simp add: init_def)
  have c: "clf_predict thumb_rule (replicate 24 0) = 0"
    by (simp add: thumb_rule_def)
  have pp: "clf_predict_proba thumb_rule
      = Some (\<lambda>row. if row ! 14 < 1 then [9 / 10, 1 / 10] else [1 / 5, 4 / 5])"
    by (simp add: thumb_rule_def)
  show ?thesis
    by (simp add: predict_def m extract_features_closed [OF valid_zero_hand]
        feature_formula_zero_hand c pp py_max_def Let_def)
qed

theorem predict_result_witness:
  "valid_landmarks zero_hand
   \<and> gc_model (init (Readable thumb_rule) Missing) = Some thumb_rule
   \<and> (\<exists>fs r. extract_features (PointList zero_hand) = Inr (Some fs)
           \<and> predict (init (Readable thumb_rule) Missing) (PointList zero_hand) = Inr (Some r)
           \<and> is_closed r = (clf_predict thumb_rule fs = 0)
           \<and> raw_value r = real_of_int (clf_predict thumb_rule fs)
           \<and> confidence r = (case clf_predict_proba thumb_rule of
                                Some proba \<Rightarrow> Max (set (proba fs)) | None \<Rightarrow> 1)
           \<and> 0 \<le> confidence r \<and> confidence r \<le> 1)"
proof -
  have m: "gc_model (init (Readable thumb_rule) Missing) = Some thumb_rule"
    by (simp add: init_def)
  show ?thesis
    using valid_zero_hand m thumb_rule_probabilities
      predict_result [OF valid_zero_hand m thumb_rule_probabilities]
    by blast
qed

section \<open>Points with fewer than two coordinates\<close>

lemma extract_features_short_hand: "extract_features (PointList short_hand) = Inl IndexError"
proof -
  have n: "short_hand ! i = [0]" if "i < 21" for i
    using that by (simp add: short_hand_def)
  have arr: "np_array short_hand = Inr short_hand"
    by (rule np_array_uniform [of 1]) (simp add: short_hand_def list_all_iff)
  show ?thesis
    by (simp add: extract_features_def as_points_def arr n Let_def item_def)
      (simp add: short_hand_def)
qed

lemma extract_features_ragged_hand: "extract_features (PointList ragged_hand) = Inl ValueError"
proof -
  have "\<not> list_all (\<lambda>r. length r = length (hd ragged_hand)) ragged_hand"
    by (simp add: ragged_hand_def list_all_iff numeral_eq_Suc)
  then have "np_array ragged_hand = Inl ValueError"
    by (simp add: np_array_def)
  then show ?thesis
    by (simp add: extract_features_def as_points_def Let_def ragged_hand_def)
qed

text \<open>
  Claim C3, where the code departs from it.  With a loaded model, a list of 21 points
  that each have one coordinate makes \<open>extract_features\<close> raise \<open>IndexError\<close> at
  \<^verbatim>\<open>tip[1]\<close>, and a list of 21 points of which one has a single coordinate makes
  \<^verbatim>\<open>np.array\<close> raise; \<open>predict\<close> does not catch either, so it raises as well instead
  of returning \<open>None\<close>.
\<close>

theorem predict_raises_on_malformed_points:
  "is_available (init (Readable thumb_rule) Missing)
   \<and> length short_hand = 21
   \<and> predict (init (Readable thumb_rule) Missing) (PointList short_hand) = Inl IndexError
   \<and> length ragged_hand = 21
   \<and> predict (init (Readable thumb_rule) Missing) (PointList ragged_hand) = Inl ValueError"
  by (simp add: is_available_def init_def predict_def extract_features_short_hand
      extract_features_ragged_hand)
    (simp add: short_hand_def ragged_hand_def)

section \<open>The dataset loader\<close>

lemma flatten_concat:
  "flatten h = concat (map (\<lambda>p. if 2 \<le> length p then [p ! 0, p ! 1] else []) h)"
  by (induction h) simp_all

lemma length_flatten: "length (flatten h) = 2 * length (filter (\<lambda>p. 2 \<le> length p) h)"
  by (induction h) simp_all

lemma flatten_full:
  "\<forall>p\<in>set h. 2 \<le> length p \<Longrightarrow> flatten h = concat (map (\<lambda>p. [p ! 0, p ! 1]) h)"
  by (induction h) simp_all

lemma length_flatten_full: "\<forall>p\<in>set h. 2 \<le> length p \<Longrightarrow> length (flatten h) = 2 * length h"
  by (simp add: length_flatten)

lemma length_flatten_short:
  assumes "\<exists>p\<in>set h. length p < 2"
  shows "length (flatten h) < 2 * length h"
proof -
  from assms obtain p where "p \<in> set h" "\<not> 2 \<le> length p" by auto
  then have "length (filter (\<lambda>p. 2 \<le> length p) h) < length h"
    by (rule length_filter_less)
  then show ?thesis by (simp add: length_flatten)
qed

lemma load_step_accept:
  assumes "length h = 21" "\<forall>p\<in>set h. 2 \<le> length p"
  shows "load_step label st (k, \<lparr>sd_landmarks = Some (h # hs)\<rparr>)
     = st\<lparr>ls_features := ls_features st @ [concat (map (\<lambda>p. [p ! 0, p ! 1]) h)],
          ls_labels := ls_labels st @ [label], ls_count := ls_count st + 1\<rparr>"
  using assms length_flatten_full [OF assms(2)]
  by (simp add: load_step_def Let_def flatten_full)

lemma load_step_short_point:
  assumes "length h = 21" "\<exists>p\<in>set h. length p < 2"
  shows "load_step label st (k, \<lparr>sd_landmarks = Some (h # hs)\<rparr>) = st"
  using assms(1) length_flatten_short [OF assms(2)]
  by (simp add: load_step_def Let_def)

lemma load_step_first_hand:
  "load_step label st (k, \<lparr>sd_landmarks = Some (h # hs)\<rparr>)
     = load_step label st (k, \<lparr>sd_landmarks = Some [h]\<rparr>)"
  by (simp add: load_step_def)

lemma load_step_malformed:
  assumes "sd_landmarks sd = None \<or> sd_landmarks sd = Some []
           \<or> (\<exists>h hs. sd_landmarks sd = Some (h # hs) \<and> length h \<noteq> 21)"
  shows "load_step label st (k, sd) = st"
  using assms by (auto simp: load_step_def)

lemma foldl_skip:
  "(\<And>st. f st e = st) \<Longrightarrow> foldl f s (xs @ [e] @ ys) = foldl f s (xs @ ys)"
  by simp

lemma load_step_inv: "loader_inv label st \<Longrightarrow> loader_inv label (load_step label st e)"
  by (auto simp: load_step_def loader_inv_def Let_def split: option.splits)

lemma foldl_load_step_inv:
  "loader_inv label st \<Longrightarrow> loader_inv label (foldl (load_step label) st data)"
  by (induction data arbitrary: st) (simp_all add: load_step_inv)

lemma loader_inv_result:
  "loader_inv label (foldl (load_step label) \<lparr>ls_features = [], ls_labels = [], ls_count = 0\<rparr> data)"
  by (rule foldl_load_step_inv) (simp add: loader_inv_def)

lemma load_zero_hand_record:
  "load_step label st (k, \<lparr>sd_landmarks = Some (zero_hand # hs)\<rparr>)
     = st\<lparr>ls_features := ls_features st @ [concat (map (\<lambda>p. [p ! 0, p ! 1]) zero_hand)],
          ls_labels := ls_labels st @ [label], ls_count := ls_count st + 1\<rparr>"
  by (rule load_step_accept) (simp_all add: zero_hand_def)

text \<open>
  Claim C7, as the code has it.  The loader uses only the first hand of a record; a
  record without the \<^verbatim>\<open>landmarks\<close> key, with no hand, or whose first hand does not have
  21 points changes nothing, wherever it stands in the source, and the load goes on.
  What is printed is the number of samples loaded, which is the length of the returned
  feature list: no count of skipped records is kept or printed.
\<close>

theorem loader_skips_and_reports:
  "load_landmark_data path (xs @ [(k, \<lparr>sd_landmarks = Some (h # hs)\<rparr>)] @ ys) label
     = load_landmark_data path (xs @ [(k, \<lparr>sd_landmarks = Some [h]\<rparr>)] @ ys) label
   \<and> (sd_landmarks sd = None \<or> sd_landmarks sd = Some []
         \<or> (\<exists>h' hs'. sd_landmarks sd = Some (h' # hs') \<and> length h' \<noteq> 21)
       \<longrightarrow> load_landmark_data path (xs @ [(k, sd)] @ ys) label
           = load_landmark_data path (xs @ ys) label)
   \<and> snd (load_landmark_data path data label)
       = [Loading path, Loaded (length (fst (fst (load_landmark_data path data label)))) label]"
proof (intro conjI impI)
  show "load_landmark_data path (xs @ [(k, \<lparr>sd_landmarks = Some (h # hs)\<rparr>)] @ ys) label
     = load_landmark_data path (xs @ [(k, \<lparr>sd_landmarks = Some [h]\<rparr>)] @ ys) label"
    by (simp add: load_landmark_data_def load_step_def)
next
  assume "sd_landmarks sd = None \<or> sd_landmarks sd = Some []
         \<or> (\<exists>h' hs'. sd_landmarks sd = Some (h' # hs') \<and> length h' \<noteq> 21)"
  then have "load_step label st (k, sd) = st" for st
    by (rule load_step_malformed)
  then show "load_landmark_data path (xs @ [(k, sd)] @ ys) label
           = load_landmark_data path (xs @ ys) label"
    unfolding load_landmark_data_def by (simp only: foldl_skip [of "load_step label"])
next
  show "snd (load_landmark_data path data label)
       = [Loading path, Loaded (length (fst (fst (load_landmark_data path data label)))) label]"
    using loader_inv_result [of label data]
    by (simp add: load_landmark_data_def Let_def loader_inv_def)
qed

theorem loader_skips_and_reports_witness:
  "sd_landmarks \<lparr>sd_landmarks = Some []\<rparr> = Some []
   \<and> load_landmark_data ''fist.json''
        ([(''a'', \<lparr>sd_landmarks = Some [zero_hand]\<rparr>)] @ [(''b'', \<lparr>sd_landmarks = Some []\<rparr>)] @ []) 0
       = load_landmark_data ''fist.json'' ([(''a'', \<lparr>sd_landmarks = Some [zero_hand]\<rparr>)] @ []) 0"
  using loader_skips_and_reports [of "''fist.json''" "[(''a'', \<lparr>sd_landmarks = Some [zero_hand]\<rparr>)]"
      "''b''" zero_hand "[]" "[]" 0 "\<lparr>sd_landmarks = Some []\<rparr>" "[]"]
  by simp

text \<open>
  A record with no detected hand leaves everything that is printed as it was: the one
  number printed is the count of loaded samples.
\<close>

theorem loader_reports_no_skipped_count:
  "snd (load_landmark_data ''fist.json''
          [(''a'', \<lparr>sd_landmarks = Some [zero_hand]\<rparr>), (''b'', \<lparr>sd_landmarks = Some []\<rparr>)] 0)
     = [Loading ''fist.json'', Loaded 1 0]
   \<and> snd (load_landmark_data ''fist.json'' [(''a'', \<lparr>sd_landmarks = Some [zero_hand]\<rparr>)] 0)
     = [Loading ''fist.json'', Loaded 1 0]"
  by (simp add: load_landmark_data_def load_zero_hand_record load_step_malformed)

text \<open>
  Claim C10.  A first hand of 21 points that all have at least two coordinates is
  accepted, and its vector keeps the first two coordinates of each point; a first hand of
  21 points of which one has fewer than two coordinates is skipped.  Every returned
  vector has 42 entries, there are as many labels as vectors, and every label is the
  label argument.
\<close>

theorem loader_point_shapes:
  "(length h = 21 \<and> (\<forall>p\<in>set h. 2 \<le> length p) \<longrightarrow>
      fst (load_landmark_data path (xs @ [(k, \<lparr>sd_landmarks = Some (h # hs)\<rparr>)]) label)
        = (fst (fst (load_landmark_data path xs label)) @ [concat (map (\<lambda>p. [p ! 0, p ! 1]) h)],
           snd (fst (load_landmark_data path xs label)) @ [label]))
   \<and> (length h = 21 \<and> (\<exists>p\<in>set h. length p < 2) \<longrightarrow>
        load_landmark_data path (xs @ [(k, \<lparr>sd_landmarks = Some (h # hs)\<rparr>)] @ ys) label
          = load_landmark_data path (xs @ ys) label)
   \<and> (\<forall>fv\<in>set (fst (fst (load_landmark_data path data label))). length fv = 42)
   \<and> length (snd (fst (load_landmark_data path data label)))
       = length (fst (fst (load_landmark_data path data label)))
   \<and> (\<forall>l\<in>set (snd (fst (load_landmark_data path data label))). l = label)"
proof (intro conjI impI)
  assume "length h = 21 \<and> (\<forall>p\<in>set h. 2 \<le> length p)"
  then show "fst (load_landmark_data path (xs @ [(k, \<lparr>sd_landmarks = Some (h # hs)\<rparr>)]) label)
        = (fst (fst (load_landmark_data path xs label)) @ [concat (map (\<lambda>p. [p ! 0, p ! 1]) h)],
           snd (fst (load_landmark_data path xs label)) @ [label])"
    by (simp add: load_landmark_data_def Let_def load_step_accept)
next
  assume "length h = 21 \<and> (\<exists>p\<in>set h. length p < 2)"
  then have "load_step label st (k, \<lparr>sd_landmarks = Some (h # hs)\<rparr>) = st" for st
    by (simp add: load_step_short_point)
  then show "load_landmark_data path (xs @ [(k, \<lparr>sd_landmarks = Some (h # hs)\<rparr>)] @ ys) label
          = load_landmark_data path (xs @ ys) label"
    unfolding load_landmark_data_def by (simp only: foldl_skip [of "load_step label"])
next
  show "\<forall>fv\<in>set (fst (fst (load_landmark_data path data label))). length fv = 42"
    using loader_inv_result [of label data]
    by (simp add: load_landmark_data_def Let_def loader_inv_def)
next
  show "length (snd (fst (load_landmark_data path data label)))
       = length (fst (fst (load_landmark_data path data label)))"
    using loader_inv_result [of label data]
    by (simp add: load_landmark_data_def Let_def loader_inv_def)
next
  show "\<forall>l\<in>set (snd (fst (load_landmark_data path data label))). l = label"
    using loader_inv_result [of label data]
    by (simp add: load_landmark_data_def Let_def loader_inv_def)
qed

theorem loader_point_shapes_witness:
  "length three_coordinate_hand = 21
   \<and> list_all (\<lambda>p. 2 \<le> length p) three_coordinate_hand
   \<and> fst (load_landmark_data ''palm.json''
             ([] @ [(''a'', \<lparr>sd_landmarks = Some (three_coordinate_hand # [])\<rparr>)]) 1)
       = ([concat (replicate 21 [1, 2])], [1])
   \<and> length ragged_hand = 21
   \<and> list_ex (\<lambda>p. length p < 2) ragged_hand
   \<and> load_landmark_data ''palm.json''
        ([] @ [(''a'', \<lparr>sd_landmarks = Some (ragged_hand # [])\<rparr>)] @ []) 1
       = load_landmark_data ''palm.json'' ([] @ []) 1"
proof -
  have a: "length three_coordinate_hand = 21 \<and> (\<forall>p\<in>set three_coordinate_hand. 2 \<le> length p)"
    by (simp add: three_coordinate_hand_def)
  have b: "length ragged_hand = 21 \<and> (\<exists>p\<in>set ragged_hand. length p < 2)"
    by (simp add: ragged_hand_def)
  have c: "fst (fst (load_landmark_data ''palm.json'' [] 1)) = []"
    "snd (fst (load_landmark_data ''palm.json'' [] 1)) = []"
    by (simp_all add: load_landmark_data_def)
  have d: "concat (map (\<lambda>p. [p ! 0, p ! 1]) three_coordinate_hand) = concat (replicate 21 [1, 2])"
    by (simp add: three_coordinate_hand_def)
  show ?thesis
    using a b
      loader_point_shapes [of three_coordinate_hand "''palm.json''" "[]" "''a''" "[]" 1 "[]" "[]"]
      loader_point_shapes [of ragged_hand "''palm.json''" "[]" "''a''" "[]" 1 "[]" "[]"]
    by (simp add: c d [unfolded One_nat_def] list_all_iff list_ex_iff)
qed

section \<open>The training pipeline\<close>

lemma reshape_pairs_even: "even (length flat) \<Longrightarrow> reshape_pairs flat = Inr (pairs flat)"
  by (induction flat rule: reshape_pairs.induct) simp_all

lemma length_pairs: "length (pairs flat) = length flat div 2"
  by (induction flat rule: pairs.induct) simp_all

lemma pairs_points: "list_all (\<lambda>p. length p = 2) (pairs flat)"
  by (induction flat rule: pairs.induct) simp_all

lemma valid_pairs: "length flat = 42 \<Longrightarrow> valid_landmarks (pairs flat)"
  by (simp add: valid_landmarks_def length_pairs pairs_points)

lemma feature_formula_nonempty: "feature_formula lm \<noteq> []"
  using length_feature_formula [of lm] by auto

lemma advanced_loop_closed:
  "\<forall>flat\<in>set fs. length flat = 42 \<Longrightarrow>
   advanced_loop fs lab = Inr (map (\<lambda>flat. feature_formula (pairs flat)) fs, replicate (length fs) lab)"
proof (induction fs)
  case Nil
  then show ?case by simp
next
  case (Cons flat fs)
  then have l: "length flat = 42" by simp
  then have e: "reshape_pairs flat = Inr (pairs flat)"
    by (simp add: reshape_pairs_even)
  have x: "extract_advanced_features (pairs flat) = Inr (Some (feature_formula (pairs flat)))"
    using l by (simp add: extract_advanced_features_closed valid_pairs)
  show ?case
    using Cons by (simp add: e x feature_formula_nonempty)
qed

lemma load_data_closed:
  "load_data_with_advanced_features fist_json palm_json =
     Inr (map (\<lambda>flat. feature_formula (pairs flat))
            (fst (fst (load_landmark_data ''fist.json'' fist_json 0))
             @ fst (fst (load_landmark_data ''palm.json'' palm_json 1))),
          replicate (length (fst (fst (load_landmark_data ''fist.json'' fist_json 0)))) 0
          @ replicate (length (fst (fst (load_landmark_data ''palm.json'' palm_json 1)))) 1)"
proof -
  let ?F = "fst (fst (load_landmark_data ''fist.json'' fist_json 0))"
  let ?P = "fst (fst (load_landmark_data ''palm.json'' palm_json 1))"
  have f: "\<forall>flat\<in>set ?F. length flat = 42"
    using loader_inv_result [of 0 fist_json]
    by (simp add: load_landmark_data_def Let_def loader_inv_def)
  have p: "\<forall>flat\<in>set ?P. length flat = 42"
    using loader_inv_result [of 1 palm_json]
    by (simp add: load_landmark_data_def Let_def loader_inv_def)
  have u: "np_array (map (\<lambda>flat. feature_formula (pairs flat)) ?F
                     @ map (\<lambda>flat. feature_formula (pairs flat)) ?P)
           = Inr (map (\<lambda>flat. feature_formula (pairs flat)) ?F
                  @ map (\<lambda>flat. feature_formula (pairs flat)) ?P)"
    by (rule np_array_uniform [of 24]) (auto simp: list_all_iff length_feature_formula)
  show ?thesis
    unfolding load_data_with_advanced_features_def Let_def
    by (simp add: advanced_loop_closed [OF f] advanced_loop_closed [OF p] u)
qed

lemma load_data_never_raises: "load_data_with_advanced_features fist_json palm_json \<noteq> Inl e"
  by (simp add: load_data_closed)

lemma train_model_Inr:
  assumes "train_model env X y model_type = Inr t"
  obtains X_train X_test y_train y_test where
    "train_test_split env X y = Inr ((X_train, X_test), (y_train, y_test))"
    "(if model_type = ''random_forest'' then fit_random_forest env X_train y_train
      else if model_type = ''svm'' then fit_svc env X_train y_train
      else Inl ValueError) = Inr (tr_model t)"
    "tr_printed_accuracy t = accuracy_score y_test (predict_rows (tr_model t) X_test)"
proof (cases "train_test_split env X y")
  case (Inl e)
  then show ?thesis using assms by (simp add: train_model_def)
next
  case (Inr parts)
  obtain X_train X_test y_train y_test where p: "parts = ((X_train, X_test), (y_train, y_test))"
    by (metis surj_pair)
  let ?fit = "if model_type = ''random_forest'' then fit_random_forest env X_train y_train
      else if model_type = ''svm'' then fit_svc env X_train y_train
      else Inl ValueError"
  show ?thesis
  proof (cases ?fit)
    case (Inl e)
    then show ?thesis using assms Inr p by (simp add: train_model_def)
  next
    case fit: (Inr m)
    have "t = \<lparr>tr_model = m,
               tr_printed_accuracy = accuracy_score y_test (predict_rows m X_test)\<rparr>"
      using assms Inr p fit
      by (simp add: train_model_def Let_def classification_report_def split: if_splits)
    then show ?thesis
      using that [of X_train X_test y_train y_test] Inr p fit by simp
  qed
qed

lemma main_Some:
  assumes "main env (Some fist_json) (Some palm_json) = Inr (Some art)"
  obtains X y rf sv where
    "load_data_with_advanced_features fist_json palm_json = Inr (X, y)" "X \<noteq> []"
    "train_model env X y ''random_forest'' = Inr rf" "train_model env X y ''svm'' = Inr sv"
    "art = (case select_model (tr_model rf) (tr_model sv) X y of
              (best_model, model_name, rf_acc, svm_acc) \<Rightarrow>
                \<lparr>art_model = best_model,
                 art_metadata = make_metadata model_name X y rf_acc svm_acc\<rparr>)"
proof -
  obtain X y where l: "load_data_with_advanced_features fist_json palm_json = Inr (X, y)"
    by (metis load_data_closed)
  have ne: "X \<noteq> []"
    using assms l by (auto simp: main_def)
  obtain rf where rf: "train_model env X y ''random_forest'' = Inr rf"
    using assms l ne by (cases "train_model env X y ''random_forest''") (simp_all add: main_def)
  obtain sv where sv: "train_model env X y ''svm'' = Inr sv"
    using assms l ne rf by (cases "train_model env X y ''svm''") (simp_all add: main_def)
  note t = rf sv
  have "art = (case select_model (tr_model rf) (tr_model sv) X y of
              (best_model, model_name, rf_acc, svm_acc) \<Rightarrow>
                \<lparr>art_model = best_model,
                 art_metadata = make_metadata model_name X y rf_acc svm_acc\<rparr>)"
    using assms l t ne by (simp add: main_def split: prod.splits)
  then show ?thesis
    using that l ne t by blast
qed


lemma pairs_flatten: "list_all (\<lambda>p. length p = 2) h \<Longrightarrow> pairs (flatten h) = h"
proof (induction h)
  case Nil
  then show ?case by simp
next
  case (Cons p h)
  then have "length p = 2" by simp
  then have "p = [p ! 0, p ! 1]" by (rule pair_point)
  then obtain a b where "p = [a, b]" by blast
  then show ?case using Cons by simp
qed

lemma hand_at_shape: "length (hand_at k) = 21" "list_all (\<lambda>p. length p = 2) (hand_at k)"
  by (auto simp: hand_at_def list_all_iff dest!: set_update_subset_insert [THEN subsetD])

lemma load_hand_at:
  "load_step label st (name, \<lparr>sd_landmarks = Some [hand_at k]\<rparr>)
     = st\<lparr>ls_features := ls_features st @ [flatten (hand_at k)],
          ls_labels := ls_labels st @ [label], ls_count := ls_count st + 1\<rparr>"
proof -
  have a: "\<forall>p\<in>set (hand_at k). 2 \<le> length p"
    using hand_at_shape(2) [of k] by (simp add: list_all_iff)
  show ?thesis
    using load_step_accept [OF hand_at_shape(1) a, of label st name "[]"]
    by (simp add: flatten_full [OF a])
qed

lemma feature_of_hand_at: "feature_formula (pairs (flatten (hand_at k))) = feature_formula (hand_at k)"
  by (simp add: pairs_flatten hand_at_shape)

lemma load_data_demo: "load_data_with_advanced_features fist_demo palm_demo = Inr (demo_X, demo_y)"
  by (simp add: load_data_closed load_landmark_data_def fist_demo_def palm_demo_def load_hand_at
      feature_of_hand_at demo_X_def demo_y_def numeral_eq_Suc)

lemma feature_formula_thumb: "feature_formula lm ! 14 = lm ! 4 ! 0 - lm ! 0 ! 0"
  by (simp add: feature_formula_def Let_def)

lemma thumb_rule_hand_at:
  "clf_predict thumb_rule (feature_formula (hand_at k)) = (if k < 1 then 0 else 1)"
  by (simp add: thumb_rule_def feature_formula_thumb hand_at_def)

lemma predict_rows_demo: "predict_rows thumb_rule demo_X = [0, 0, 0, 0, 1, 1, 1, 1, 1, 1]"
  by (simp add: predict_rows_def demo_X_def thumb_rule_hand_at)

lemma train_model_demo:
  "train_model demo_env demo_X demo_y ''random_forest''
     = Inr \<lparr>tr_model = thumb_rule, tr_printed_accuracy = 1 / 2\<rparr>"
  "train_model demo_env demo_X demo_y ''svm''
     = Inr \<lparr>tr_model = thumb_rule, tr_printed_accuracy = 1 / 2\<rparr>"
  by (simp_all add: train_model_def demo_env_def demo_split_def demo_X_def demo_y_def
      predict_rows_def thumb_rule_hand_at accuracy_score_def classification_report_def)

lemma main_demo:
  "main demo_env (Some fist_demo) (Some palm_demo)
     = Inr (Some demo_artifact)"
proof -
  have n: "demo_X \<noteq> []" "length demo_X = 10" "length (hd demo_X) = 24"
    by (simp_all add: demo_X_def length_feature_formula)
  have s: "select_model thumb_rule thumb_rule demo_X demo_y
             = (thumb_rule, ''random_forest'', 9 / 10, 9 / 10)"
    by (simp add: select_model_def predict_rows_demo Let_def) (simp add: accuracy_score_def demo_y_def)
  show ?thesis
    by (simp add: main_def load_data_demo train_model_demo n s make_metadata_def demo_artifact_def)
      (simp add: demo_y_def)
qed


lemma predict_rows_always_palm: "predict_rows always_palm demo_X = [1, 1, 1, 1, 1, 1, 1, 1, 1, 1]"
  by (simp add: predict_rows_def demo_X_def always_palm_def)

lemma demo_accuracies:
  "accuracy_score demo_y (predict_rows thumb_rule demo_X) = 9 / 10"
  "accuracy_score demo_y (predict_rows always_palm demo_X) = 1 / 2"
  by (simp_all add: predict_rows_demo predict_rows_always_palm accuracy_score_def demo_y_def)

lemma train_model_svm_better:
  "train_model svm_better_env demo_X demo_y ''random_forest''
     = Inr \<lparr>tr_model = always_palm, tr_printed_accuracy = 1 / 2\<rparr>"
  "train_model svm_better_env demo_X demo_y ''svm''
     = Inr \<lparr>tr_model = thumb_rule, tr_printed_accuracy = 1 / 2\<rparr>"
  by (simp_all add: train_model_def svm_better_env_def demo_split_def demo_X_def demo_y_def
      predict_rows_def thumb_rule_hand_at accuracy_score_def classification_report_def
      always_palm_def)

lemma train_model_forest_better:
  "train_model forest_better_env demo_X demo_y ''random_forest''
     = Inr \<lparr>tr_model = thumb_rule, tr_printed_accuracy = 1 / 2\<rparr>"
  "train_model forest_better_env demo_X demo_y ''svm''
     = Inr \<lparr>tr_model = always_palm, tr_printed_accuracy = 1 / 2\<rparr>"
  by (simp_all add: train_model_def forest_better_env_def demo_split_def demo_X_def demo_y_def
      predict_rows_def thumb_rule_hand_at accuracy_score_def classification_report_def
      always_palm_def)

lemma demo_X_shape: "demo_X \<noteq> []" "length demo_X = 10" "length (hd demo_X) = 24"
  by (simp_all add: demo_X_def length_feature_formula)

lemma main_svm_better:
  "main svm_better_env (Some fist_demo) (Some palm_demo) = Inr (Some svm_artifact)"
proof -
  have s: "select_model always_palm thumb_rule demo_X demo_y
             = (thumb_rule, ''svm'', 1 / 2, 9 / 10)"
    by (simp add: select_model_def demo_accuracies Let_def)
  show ?thesis
    by (simp add: main_def load_data_demo train_model_svm_better demo_X_shape s
        make_metadata_def svm_artifact_def)
      (simp add: demo_y_def)
qed

lemma main_forest_better:
  "main forest_better_env (Some fist_demo) (Some palm_demo) = Inr (Some demo_artifact)"
proof -
  have s: "select_model thumb_rule always_palm demo_X demo_y
             = (thumb_rule, ''random_forest'', 9 / 10, 1 / 2)"
    by (simp add: select_model_def demo_accuracies Let_def)
  show ?thesis
    by (simp add: main_def load_data_demo train_model_forest_better demo_X_shape s
        make_metadata_def demo_artifact_def)
      (simp add: demo_y_def)
qed

lemma main_raises:
  assumes "load_data_with_advanced_features fist_json palm_json = Inr (X, y)" and "X \<noteq> []"
    and "train_model env X y ''random_forest'' = Inl e
         \<or> (\<exists>rf. train_model env X y ''random_forest'' = Inr rf)
            \<and> train_model env X y ''svm'' = Inl e"
  shows "main env (Some fist_json) (Some palm_json) = Inl e"
  using assms by (auto simp: main_def)

text \<open>
  Claim C4.  On a non-empty loaded dataset \<open>(X, y)\<close> on which both calls of
  \<open>train_model\<close> return, \<open>main\<close> writes an artifact.  Both candidates are scored again on
  that same whole dataset; the model written is the one with the higher of the two scores,
  and the random forest when the scores are equal.
\<close>

theorem model_selection:
  assumes "load_data_with_advanced_features fist_json palm_json = Inr (X, y)" and "X \<noteq> []"
    and "train_model env X y ''random_forest'' = Inr rf"
    and "train_model env X y ''svm'' = Inr sv"
  shows "\<exists>art. main env (Some fist_json) (Some palm_json) = Inr (Some art)
      \<and> accuracy_score y (predict_rows (art_model art) X)
          = max (accuracy_score y (predict_rows (tr_model rf) X))
                (accuracy_score y (predict_rows (tr_model sv) X))
      \<and> (if accuracy_score y (predict_rows (tr_model sv) X)
              \<le> accuracy_score y (predict_rows (tr_model rf) X)
          then art_model art = tr_model rf
               \<and> map_of (art_metadata art) ''model_type'' = Some (JStr ''random_forest'')
          else art_model art = tr_model sv
               \<and> map_of (art_metadata art) ''model_type'' = Some (JStr ''svm''))"
  using assms by (simp add: main_def select_model_def make_metadata_def Let_def)

theorem model_selection_witness:
  "load_data_with_advanced_features fist_demo palm_demo = Inr (demo_X, demo_y)
   \<and> demo_X \<noteq> []
   \<and> train_model svm_better_env demo_X demo_y ''random_forest''
       = Inr \<lparr>tr_model = always_palm, tr_printed_accuracy = 1 / 2\<rparr>
   \<and> train_model svm_better_env demo_X demo_y ''svm''
       = Inr \<lparr>tr_model = thumb_rule, tr_printed_accuracy = 1 / 2\<rparr>
   \<and> accuracy_score demo_y (predict_rows always_palm demo_X) = 1 / 2
   \<and> accuracy_score demo_y (predict_rows thumb_rule demo_X) = 9 / 10
   \<and> main svm_better_env (Some fist_demo) (Some palm_demo) = Inr (Some svm_artifact)
   \<and> art_model svm_artifact = thumb_rule
   \<and> map_of (art_metadata svm_artifact) ''model_type'' = Some (JStr ''svm'')
   \<and> main forest_better_env (Some fist_demo) (Some palm_demo) = Inr (Some demo_artifact)
   \<and> art_model demo_artifact = thumb_rule
   \<and> map_of (art_metadata demo_artifact) ''model_type'' = Some (JStr ''random_forest'')
   \<and> main demo_env (Some fist_demo) (Some palm_demo) = Inr (Some demo_artifact)"
proof -
  note a = model_selection [OF load_data_demo demo_X_shape(1) train_model_svm_better]
  note b = model_selection [OF load_data_demo demo_X_shape(1) train_model_forest_better]
  note c = model_selection [OF load_data_demo demo_X_shape(1) train_model_demo]
  from a have "art_model svm_artifact = thumb_rule
      \<and> map_of (art_metadata svm_artifact) ''model_type'' = Some (JStr ''svm'')"
    by (simp add: main_svm_better demo_accuracies)
  moreover from b c have "art_model demo_artifact = thumb_rule
      \<and> map_of (art_metadata demo_artifact) ''model_type'' = Some (JStr ''random_forest'')"
    by (simp add: main_forest_better main_demo demo_accuracies)
  ultimately show ?thesis
    by (simp add: load_data_demo demo_X_shape train_model_svm_better demo_accuracies
        main_svm_better main_forest_better main_demo)
qed

text \<open>
  Claim C8, as the code has it.  The metadata written has exactly the six keys
  \<open>model_type\<close>, \<open>feature_count\<close>, \<open>training_samples\<close>, \<open>fist_samples\<close>,
  \<open>palm_samples\<close> and \<open>accuracy\<close>, and \<open>accuracy\<close> is the accuracy of the chosen model
  on the whole dataset.
\<close>

theorem metadata_contents:
  assumes "main env (Some fist_json) (Some palm_json) = Inr (Some art)"
  shows "map fst (art_metadata art)
           = [''model_type'', ''feature_count'', ''training_samples'', ''fist_samples'',
              ''palm_samples'', ''accuracy'']
     \<and> (\<exists>X y. load_data_with_advanced_features fist_json palm_json = Inr (X, y)
           \<and> map_of (art_metadata art) ''accuracy''
               = Some (JFloat (accuracy_score y (predict_rows (art_model art) X))))"
proof -
  from assms obtain X y rf sv where
    l: "load_data_with_advanced_features fist_json palm_json = Inr (X, y)"
    and "X \<noteq> []"
    and "train_model env X y ''random_forest'' = Inr rf" "train_model env X y ''svm'' = Inr sv"
    and a: "art = (case select_model (tr_model rf) (tr_model sv) X y of
              (best_model, model_name, rf_acc, svm_acc) \<Rightarrow>
                \<lparr>art_model = best_model,
                 art_metadata = make_metadata model_name X y rf_acc svm_acc\<rparr>)"
    by (rule main_Some)
  have "map fst (art_metadata art)
           = [''model_type'', ''feature_count'', ''training_samples'', ''fist_samples'',
              ''palm_samples'', ''accuracy'']
     \<and> map_of (art_metadata art) ''accuracy''
               = Some (JFloat (accuracy_score y (predict_rows (art_model art) X)))"
    unfolding a by (simp add: select_model_def make_metadata_def Let_def)
  then show ?thesis
    using l by blast
qed

theorem metadata_contents_witness:
  "main demo_env (Some fist_demo) (Some palm_demo) = Inr (Some demo_artifact)
   \<and> map fst (art_metadata demo_artifact)
        = [''model_type'', ''feature_count'', ''training_samples'', ''fist_samples'',
           ''palm_samples'', ''accuracy'']
   \<and> (\<exists>X y. load_data_with_advanced_features fist_demo palm_demo = Inr (X, y)
         \<and> map_of (art_metadata demo_artifact) ''accuracy''
             = Some (JFloat (accuracy_score y (predict_rows (art_model demo_artifact) X))))"
  using main_demo metadata_contents [OF main_demo] by blast

text \<open>
  The accuracy written is not the held-out one.  On the two five-record sources the
  chosen model scores 1/2 on the test partition (the value \<open>train_model\<close> prints) and 9/10
  on the whole dataset, and the metadata says 9/10.
\<close>

theorem metadata_accuracy_is_not_held_out:
  "main demo_env (Some fist_demo) (Some palm_demo) = Inr (Some demo_artifact)
   \<and> load_data_with_advanced_features fist_demo palm_demo = Inr (demo_X, demo_y)
   \<and> train_model demo_env demo_X demo_y ''random_forest''
       = Inr \<lparr>tr_model = thumb_rule, tr_printed_accuracy = 1 / 2\<rparr>
   \<and> art_model demo_artifact = thumb_rule
   \<and> map_of (art_metadata demo_artifact) ''model_type'' = Some (JStr ''random_forest'')
   \<and> map_of (art_metadata demo_artifact) ''accuracy'' = Some (JFloat (9 / 10))"
  by (simp add: main_demo load_data_demo train_model_demo) (simp add: demo_artifact_def)

end
